theory Spec2Isabelle
  imports Complex_Main "HOL-Library.Multiset"
begin

section \<open>JavaScript values\<close>

text \<open>
  A JavaScript number is modelled as a rational (\<^typ>\<open>rat\<close>); rounding of doubles is not
  modelled. An optional or possibly \<open>undefined\<close> value is an \<^typ>\<open>'a option\<close>. In a condition
  JavaScript takes \<open>undefined\<close>, \<open>NaN\<close>, \<open>0\<close> and the empty string as false: \<open>given\<close> keeps a
  number that counts as true, \<open>given_str\<close> a string that counts as true.
\<close>

definition given :: "rat option \<Rightarrow> rat option" where
  "given x = (case x of None \<Rightarrow> None | Some v \<Rightarrow> if v = 0 then None else Some v)"

definition given_str :: "string option \<Rightarrow> string option" where
  "given_str x = (case x of None \<Rightarrow> None | Some s \<Rightarrow> if s = [] then None else Some s)"

text \<open>
  A template literal such as \<open>`${cpuLimit}m`\<close> renders a number followed by a unit; it is kept
  as the number and the unit.
\<close>

datatype quantity = Quantity rat string

text \<open>\<open>String.prototype.toLowerCase\<close> on ASCII letters; other characters are left as they are.\<close>

definition toLowerCase_char :: "char \<Rightarrow> char" where
  "toLowerCase_char c =
     (case map_of (zip ''ABCDEFGHIJKLMNOPQRSTUVWXYZ'' ''abcdefghijklmnopqrstuvwxyz'') c of
        None \<Rightarrow> c
      | Some l \<Rightarrow> l)"

definition toLowerCase :: "string \<Rightarrow> string" where
  "toLowerCase s = map toLowerCase_char s"

text \<open>The decimal rendering of a non-negative whole number inside a template literal.\<close>

fun decimal :: "nat \<Rightarrow> string" where
  "decimal n =
     (if n < 10 then [''0123456789'' ! n]
      else decimal (n div 10) @ [''0123456789'' ! (n mod 10)])"

declare decimal.simps [simp del]

text \<open>\<open>new Map(entries)\<close>: the entries are set in order, a later entry replacing an earlier one
  with the same key.\<close>

definition Map_of_entries :: "('k \<times> 'v) list \<Rightarrow> ('k \<rightharpoonup> 'v)" where
  "Map_of_entries entries = foldl (\<lambda>m (k, v). m(k \<mapsto> v)) Map.empty entries"

section \<open>The Kubernetes cluster (TypeScript): data\<close>

record PodMetadata =
  name :: string
  creationTimestamp :: int

record PodStatus =
  podIP :: "string option"
  phase :: string

record PodDescription =
  metadata :: PodMetadata
  pod_status :: PodStatus

record SessionDescription =
  sid :: string
  ip :: "string option"
  port :: nat
  created :: int
  status :: string
  pendingPosition :: int

text \<open>The constructor of \<open>SessionDescription\<close> sets \<open>pendingPosition\<close> to \<open>-1\<close>.\<close>

definition new_SessionDescription ::
    "string \<Rightarrow> string option \<Rightarrow> nat \<Rightarrow> int \<Rightarrow> string \<Rightarrow> SessionDescription" where
  "new_SessionDescription i a p c s =
     \<lparr>sid = i, ip = a, port = p, created = c, status = s, pendingPosition = - 1\<rparr>"

record NameValuePair =
  nv_name :: string
  nv_value :: string

datatype ImagePullPolicy = Always | IfNotPresent

text \<open>A TypeScript numeric enum: the member's number, and the reverse mapping to its name.\<close>

fun ImagePullPolicy_value :: "ImagePullPolicy \<Rightarrow> nat" where
  "ImagePullPolicy_value Always = 0"
| "ImagePullPolicy_value IfNotPresent = 1"

fun ImagePullPolicy_name :: "ImagePullPolicy \<Rightarrow> string" where
  "ImagePullPolicy_name Always = ''Always''"
| "ImagePullPolicy_name IfNotPresent = ''IfNotPresent''"

record ContainerDescription =
  image :: string
  cmd :: "string list"
  vars :: "NameValuePair list"
  imagePullPolicy :: "ImagePullPolicy option"

record PodLabels =
  label_type :: string
  reason :: string

record PodRequestMetadata =
  req_name :: string
  req_type :: string
  labels :: PodLabels

record ContainerResourceDefinition =
  memory :: quantity
  cpu :: quantity

record ContainerResources =
  requests :: ContainerResourceDefinition
  limits :: ContainerResourceDefinition

record ContainerPortDefinition =
  containerPort :: nat

record ContainerDefinition =
  container_name :: string
  container_image :: string
  container_imagePullPolicy :: string
  env :: "NameValuePair list"
  command :: "string list"
  args :: "string list"
  resources :: ContainerResources
  ports :: "ContainerPortDefinition list"

record PodSecurityContext =
  runAsUser :: nat

record MatchExpression =
  key :: string
  operator :: string
  values_of :: "string list"

record LabelSelector =
  matchExpressions :: "MatchExpression list"

record PodAffinityTerm =
  labelSelector :: LabelSelector
  topologyKey :: string

record PreferredDuringSchedulingIgnoredDuringExecutionDefinition =
  weight :: int
  podAffinityTerm :: PodAffinityTerm

record PodAffinity =
  preferredDuringSchedulingIgnoredDuringExecution ::
    "PreferredDuringSchedulingIgnoredDuringExecutionDefinition list"

record PodAffinityWrapper =
  podAffinity :: PodAffinity

record PodRequestSpec =
  containers :: "ContainerDefinition list"
  restartPolicy :: string
  securityContext :: PodSecurityContext
  automountServiceAccountToken :: bool
  affinity :: "PodAffinityWrapper option"

record PodRequest =
  kind :: string
  apiVersion :: string
  req_metadata :: PodRequestMetadata
  spec :: PodRequestSpec

text \<open>
  Modelled from the spec: the declaration of \<open>SoftwareSession\<close> (module \<open>./context\<close>) is not
  among the sources. The spec gives a session request the optional resource needs
  \<open>cpuShares\<close>, \<open>ramReservationGiB\<close> and \<open>ramLimitGiB\<close>; the code reads them as
  \<open>session.cpu.shares\<close>, \<open>session.ram.reservation\<close> and \<open>session.ram.limit\<close>, and the
  environment identifier as \<open>session.environment.id\<close>.
\<close>

record SessionRam =
  reservation :: "rat option"
  limit :: "rat option"

record SessionCpu =
  shares :: "rat option"

record SoftwareEnvironment =
  env_id :: string

record SoftwareSession =
  environment :: SoftwareEnvironment
  ram :: "SessionRam option"
  cpu_of :: "SessionCpu option"

section \<open>Configuration\<close>

text \<open>
  The constants of the module are computed once, when it is loaded, from the process
  environment. \<open>process_env\<close> holds what \<open>parseFloat\<close> and \<open>parseInt\<close> make of each variable
  (\<open>None\<close> for \<open>NaN\<close>, which an unset variable gives), and the text of the image variable.
\<close>

record process_env =
  env_STENCILA_CORE_IMAGE :: "string option"
  env_POD_REQUEST_MEM :: "rat option"
  env_POD_LIMIT_CPU :: "rat option"
  env_POD_LIMIT_MEM :: "rat option"
  env_SESSION_AFFINITY :: "int option"

record config =
  STENCILA_CORE_IMAGE :: string
  POD_REQUEST_CPU :: rat
  POD_REQUEST_MEM :: rat
  POD_LIMIT_CPU :: rat
  POD_LIMIT_MEM :: rat
  SESSION_AFFINITY :: int

definition DEFAULT_PORT :: nat where
  "DEFAULT_PORT = 2000"

text \<open>\<open>POD_REQUEST_CPU\<close> is read from the variable \<open>POD_REQUEST_MEM\<close>, as the source has
  it.\<close>

definition load_config :: "process_env \<Rightarrow> config" where
  "load_config e =
     \<lparr>STENCILA_CORE_IMAGE =
        (case given_str (env_STENCILA_CORE_IMAGE e) of Some s \<Rightarrow> s | None \<Rightarrow> ''stencila/core''),
      POD_REQUEST_CPU = (case given (env_POD_REQUEST_MEM e) of Some v \<Rightarrow> v | None \<Rightarrow> 50),
      POD_REQUEST_MEM = (case given (env_POD_REQUEST_MEM e) of Some v \<Rightarrow> v | None \<Rightarrow> 50 / 1024),
      POD_LIMIT_CPU = (case given (env_POD_LIMIT_CPU e) of Some v \<Rightarrow> v | None \<Rightarrow> 1000),
      POD_LIMIT_MEM = (case given (env_POD_LIMIT_MEM e) of Some v \<Rightarrow> v | None \<Rightarrow> 12 / 10),
      SESSION_AFFINITY =
        (case env_SESSION_AFFINITY e of None \<Rightarrow> 0 | Some v \<Rightarrow> v)\<rparr>"

text \<open>The configuration of a process started with none of the variables set.\<close>

definition default_config :: config where
  "default_config =
     load_config \<lparr>env_STENCILA_CORE_IMAGE = None, env_POD_REQUEST_MEM = None,
       env_POD_LIMIT_CPU = None, env_POD_LIMIT_MEM = None, env_SESSION_AFFINITY = None\<rparr>"

section \<open>Resource policy\<close>

definition softwareSessionToResourceLimitsTransformer ::
    "config \<Rightarrow> SoftwareSession \<Rightarrow> ContainerResources" where
  "softwareSessionToResourceLimitsTransformer cfg session =
     (let memoryRequested =
            (case given (Option.bind (ram session) reservation) of
               Some v \<Rightarrow> v
             | None \<Rightarrow> POD_REQUEST_MEM cfg);
          memoryLimit =
            (case given (Option.bind (ram session) limit) of
               Some v \<Rightarrow> v
             | None \<Rightarrow> POD_LIMIT_MEM cfg);
          cpuLimit =
            (case given (Option.bind (cpu_of session) shares) of
               Some v \<Rightarrow> (v / 1024) * 1000
             | None \<Rightarrow> POD_LIMIT_CPU cfg)
      in \<lparr>requests = \<lparr>memory = Quantity memoryRequested ''Gi'',
                       cpu = Quantity (POD_REQUEST_CPU cfg) ''m''\<rparr>,
          limits = \<lparr>memory = Quantity memoryLimit ''Gi'',
                     cpu = Quantity cpuLimit ''m''\<rparr>\<rparr>)"

text \<open>The resource needs a session request declares, as the three optional numbers.\<close>

definition cpuShares :: "SoftwareSession \<Rightarrow> rat option" where
  "cpuShares session = Option.bind (cpu_of session) shares"

definition ramReservation :: "SoftwareSession \<Rightarrow> rat option" where
  "ramReservation session = Option.bind (ram session) reservation"

definition ramLimit :: "SoftwareSession \<Rightarrow> rat option" where
  "ramLimit session = Option.bind (ram session) limit"

section \<open>The Kubernetes cluster (TypeScript): state and control plane\<close>

text \<open>
  The errors the methods of \<open>KubernetesCluster\<close> raise:
  \<^item> \<open>NotInstantiated\<close>: \<open>TypeError('this._pods has not been instantiated')\<close>;
  \<^item> \<open>UnknownEnvironment id\<close>: \<open>TypeError('Container with environment ID ' + id + ' does not exist.')\<close>;
  \<^item> \<open>NotReady\<close>: \<open>Error('Pod not ready yet')\<close>;
  \<^item> \<open>PodFailed\<close>: \<open>Error('Pod failure?')\<close>;
  \<^item> \<open>ControlPlaneError m\<close>: the promise of a control-plane call was rejected with \<open>m\<close>.
\<close>

datatype error =
    NotInstantiated
  | UnknownEnvironment string
  | NotReady
  | PodFailed
  | ControlPlaneError string

text \<open>
  The control plane is outside the program. \<open>'w\<close> is the state of the world the cluster talks
  to; a call through the client \<open>this._pods\<close> takes the world to a new one and is answered or
  rejected (\<open>Inl\<close>, with the message). \<open>now\<close> is the clock \<open>new Date().getTime()\<close> reads,
  in milliseconds.
\<close>

record 'w k8s =
  pods_get :: "string \<Rightarrow> 'w \<Rightarrow> (string + PodDescription list) \<times> 'w"
  pod_get :: "string \<Rightarrow> 'w \<Rightarrow> (string + PodDescription) \<times> 'w"
  pods_post :: "PodRequest \<Rightarrow> 'w \<Rightarrow> (string + PodDescription) \<times> 'w"
  now :: "'w \<Rightarrow> int"
  toISOString :: "int \<Rightarrow> string"
  randomBytes_hex :: "nat \<Rightarrow> nat \<Rightarrow> string"

text \<open>The calls issued to the control plane are recorded, each with the clock at its issue
  and whether it was answered.\<close>

datatype request = PodsGet string | PodGet string | PodsPost PodRequest

record call =
  issued_at :: int
  request_of :: request
  succeeded :: bool

record KubernetesCluster =
  listRefresh :: int
  list_cache :: "(string \<rightharpoonup> SessionDescription) option"
  listCachedAt :: "int option"
  pods :: bool
  containers_of :: "string \<rightharpoonup> ContainerDescription"

text \<open>
  The state a method runs in: the object itself (\<open>self\<close>), the world, the number of random
  draws made so far (\<open>crypto.randomBytes\<close>), and the calls issued to the control plane.
\<close>

record 'w state =
  self :: KubernetesCluster
  world :: 'w
  entropy :: nat
  calls :: "call list"

definition invoke ::
    "'w k8s \<Rightarrow> request \<Rightarrow> ('w \<Rightarrow> (string + 'a) \<times> 'w) \<Rightarrow> 'w state \<Rightarrow> (error + 'a) \<times> 'w state" where
  "invoke k rq f st =
     (case f (world st) of
        (r, w') \<Rightarrow>
          (case r of Inl m \<Rightarrow> Inl (ControlPlaneError m) | Inr v \<Rightarrow> Inr v,
           st\<lparr>world := w',
              calls := calls st @ [\<lparr>issued_at = now k (world st), request_of = rq, succeeded = \<not> isl r\<rparr>]\<rparr>))"

definition DEFAULT_CONTAINERS :: "config \<Rightarrow> ContainerDescription list" where
  "DEFAULT_CONTAINERS cfg =
     [\<lparr>image = STENCILA_CORE_IMAGE cfg, cmd = [''stencila-cmd''],
       vars = [\<lparr>nv_name = ''STENCILA_AUTH'', nv_value = ''false''\<rparr>],
       imagePullPolicy = Some IfNotPresent\<rparr>,
      \<lparr>image = ''stencila/base-node'', cmd = [''stencila-cmd''],
       vars = [\<lparr>nv_name = ''STENCILA_AUTH'', nv_value = ''false''\<rparr>],
       imagePullPolicy = Some Always\<rparr>,
      \<lparr>image = ''alpine'', cmd = [''sleep'', ''90''], vars = [], imagePullPolicy = None\<rparr>]"

definition CONTAINER_MAP :: "config \<Rightarrow> (string \<rightharpoonup> ContainerDescription)" where
  "CONTAINER_MAP cfg =
     Map_of_entries (map (\<lambda>containerDescription. (image containerDescription, containerDescription))
       (DEFAULT_CONTAINERS cfg))"

text \<open>The constructor (the choice of the client's configuration apart) and \<open>init\<close>.\<close>

definition new_KubernetesCluster :: "config \<Rightarrow> KubernetesCluster" where
  "new_KubernetesCluster cfg =
     \<lparr>listRefresh = 10000, list_cache = None, listCachedAt = None, pods = False,
      containers_of = CONTAINER_MAP cfg\<rparr>"

definition init :: "KubernetesCluster \<Rightarrow> KubernetesCluster" where
  "init c = (if pods c then c else c\<lparr>pods := True\<rparr>)"

definition podToSession :: "PodDescription \<Rightarrow> SessionDescription" where
  "podToSession pod =
     new_SessionDescription
       (name (metadata pod))
       (podIP (pod_status pod))
       DEFAULT_PORT
       (creationTimestamp (metadata pod))
       (toLowerCase (phase (pod_status pod)))"

text \<open>The test \<open>session.status === 'pending'\<close> of \<open>list\<close>.\<close>

definition pending :: "SessionDescription \<Rightarrow> bool" where
  "pending session \<longleftrightarrow> status session = ''pending''"

text \<open>
  The pass over the sorted sessions that numbers the pending ones; \<open>pendingQueue\<close> is the
  counter of the source.
\<close>

fun assign_pendingPosition :: "int \<Rightarrow> SessionDescription list \<Rightarrow> SessionDescription list" where
  "assign_pendingPosition pendingQueue [] = []"
| "assign_pendingPosition pendingQueue (session # sessions) =
     (if pending session
      then session\<lparr>pendingPosition := pendingQueue\<rparr>
             # assign_pendingPosition (pendingQueue + 1) sessions
      else session # assign_pendingPosition pendingQueue sessions)"

text \<open>
  What \<open>list\<close> makes of the items of the control plane's answer: the sessions, sorted by
  \<open>created\<close> (\<open>Array.prototype.sort\<close> is stable) and numbered, and the map from their ids.
\<close>

definition sessions_of :: "PodDescription list \<Rightarrow> SessionDescription list" where
  "sessions_of podItems =
     assign_pendingPosition 0 (sort_key created (map podToSession podItems))"

definition list :: "'w k8s \<Rightarrow> 'w state \<Rightarrow> (error + (string \<rightharpoonup> SessionDescription)) \<times> 'w state" where
  "list k st =
     (if (case listCachedAt (self st) of
            None \<Rightarrow> True
          | Some cachedAt \<Rightarrow> now k (world st) - cachedAt > listRefresh (self st))
      then
        if \<not> pods (self st) then (Inl NotInstantiated, st)
        else
          (case invoke k (PodsGet ''type=session'') (pods_get k ''type=session'') st of
             (Inl e, st1) \<Rightarrow> (Inl e, st1)
           | (Inr podItems, st1) \<Rightarrow>
               (let sessions = sessions_of podItems;
                    m = Map_of_entries (map (\<lambda>session. (sid session, session)) sessions)
                in (Inr m,
                    st1\<lparr>self := (self st1)\<lparr>list_cache := Some m,
                                            listCachedAt := Some (now k (world st1))\<rparr>\<rparr>)))
      else
        (Inr (case list_cache (self st) of None \<Rightarrow> Map.empty | Some m \<Rightarrow> m), st))"

definition get :: "'w k8s \<Rightarrow> string \<Rightarrow> 'w state \<Rightarrow> (error + SessionDescription) \<times> 'w state" where
  "get k sessionId st =
     (case list k st of
        (Inl e, st1) \<Rightarrow> (Inl e, st1)
      | (Inr sessions, st1) \<Rightarrow>
          (case sessions sessionId of
             Some session \<Rightarrow> (Inr session, st1)
           | None \<Rightarrow>
               if \<not> pods (self st1) then (Inl NotInstantiated, st1)
               else
                 (case invoke k (PodGet sessionId) (pod_get k sessionId) st1 of
                    (Inl e, st2) \<Rightarrow> (Inl e, st2)
                  | (Inr pod, st2) \<Rightarrow> (Inr (podToSession pod), st2))))"

definition resolve :: "'w k8s \<Rightarrow> string \<Rightarrow> 'w state \<Rightarrow> (error + string) \<times> 'w state" where
  "resolve k sessionId st =
     (case get k sessionId st of
        (Inl e, st1) \<Rightarrow> (Inl e, st1)
      | (Inr pod, st1) \<Rightarrow>
          (case given_str (ip pod) of
             Some a \<Rightarrow>
               if port pod \<noteq> 0 then (Inr (''http://'' @ a @ '':'' @ decimal (port pod)), st1)
               else if status pod = ''Pending'' then (Inl NotReady, st1)
               else (Inl PodFailed, st1)
           | None \<Rightarrow>
               if status pod = ''Pending'' then (Inl NotReady, st1)
               else (Inl PodFailed, st1)))"

text \<open>The request \<open>spawn\<close> builds for a container of the registry (\<open>options\<close> in the
  source), the session affinity applied.\<close>

definition pod_request ::
    "config \<Rightarrow> ContainerDescription \<Rightarrow> SoftwareSession \<Rightarrow> string \<Rightarrow> PodLabels \<Rightarrow> nat
       \<Rightarrow> PodRequest" where
  "pod_request cfg container session pod_name pod_labels port_used =
     (let resources_derived = softwareSessionToResourceLimitsTransformer cfg session;
          options =
            \<lparr>kind = ''Pod'',
             apiVersion = ''v1'',
             req_metadata =
               \<lparr>req_name = pod_name, req_type = ''stencila-cloud-pod'', labels = pod_labels\<rparr>,
             spec =
               \<lparr>containers =
                  [\<lparr>container_name = ''stencila-host-container'',
                    container_image = image container,
                    container_imagePullPolicy =
                      ImagePullPolicy_name
                        (case imagePullPolicy container of
                           None \<Rightarrow> IfNotPresent
                         | Some policy \<Rightarrow>
                             if ImagePullPolicy_value policy = 0 then IfNotPresent else policy),
                    env = vars container,
                    command = take 1 (cmd container),
                    args = drop 1 (cmd container),
                    resources = resources_derived,
                    ports = [\<lparr>containerPort = port_used\<rparr>]\<rparr>],
                restartPolicy = ''Never'',
                securityContext = \<lparr>runAsUser = 1000\<rparr>,
                automountServiceAccountToken = False,
                affinity = None\<rparr>\<rparr>
      in if SESSION_AFFINITY cfg \<noteq> 0
         then options\<lparr>spec := (spec options)\<lparr>affinity := Some
                \<lparr>podAffinity =
                   \<lparr>preferredDuringSchedulingIgnoredDuringExecution =
                      [\<lparr>weight = SESSION_AFFINITY cfg,
                        podAffinityTerm =
                          \<lparr>labelSelector =
                             \<lparr>matchExpressions =
                                [\<lparr>key = ''type'', operator = ''In'',
                                  values_of = [''session'']\<rparr>]\<rparr>,
                           topologyKey = ''kubernetes.io/hostname''\<rparr>\<rparr>]\<rparr>\<rparr>\<rparr>\<rparr>
         else options)"

text \<open>The name \<open>spawn\<close> gives the pod: \<open>session-\<close>, the time without its punctuation, and
  sixteen random bytes.\<close>

definition generated_name :: "'w k8s \<Rightarrow> 'w state \<Rightarrow> string" where
  "generated_name k st =
     (let time = filter (\<lambda>c. c \<notin> set ''-T:.Z'') (toISOString k (now k (world st)));
          rand = randomBytes_hex k 16 (entropy st)
      in ''session-'' @ time @ ''-'' @ rand)"

definition spawn ::
    "config \<Rightarrow> 'w k8s \<Rightarrow> SoftwareSession \<Rightarrow> string \<Rightarrow> 'w state \<Rightarrow> (error + string) \<times> 'w state" where
  "spawn cfg k session reason_given st =
     (if \<not> pods (self st) then (Inl NotInstantiated, st)
      else
        (let pod_name = generated_name k st;
             st1 = st\<lparr>entropy := entropy st + 1\<rparr>;
             port_used = DEFAULT_PORT;
             pod_labels = \<lparr>label_type = ''session'', reason = reason_given\<rparr>;
             environId = env_id (environment session)
         in case containers_of (self st1) environId of
              None \<Rightarrow> (Inl (UnknownEnvironment environId), st1)
            | Some container \<Rightarrow>
                (let options = pod_request cfg container session pod_name pod_labels port_used
                 in case invoke k (PodsPost options) (pods_post k options) st1 of
                      (Inl e, st2) \<Rightarrow> (Inl e, st2)
                    | (Inr pod, st2) \<Rightarrow> (Inr (name (metadata pod)), st2))))"

text \<open>
  \<open>list\<close> is asynchronous: it runs as far as \<open>await this._pods.get(...)\<close>, and goes on when
  the answer has come; other calls may run in between. \<open>list_begin\<close> is the part before the
  \<open>await\<close>, which ends the call at once (\<open>Done\<close>) or leaves it awaiting the answer to the
  request it has issued; \<open>list_end\<close> is the part after.
\<close>

datatype 'a started = Done 'a | Awaiting "error + PodDescription list"

definition list_begin ::
    "'w k8s \<Rightarrow> 'w state \<Rightarrow> (error + (string \<rightharpoonup> SessionDescription)) started \<times> 'w state" where
  "list_begin k st =
     (if (case listCachedAt (self st) of
            None \<Rightarrow> True
          | Some cachedAt \<Rightarrow> now k (world st) - cachedAt > listRefresh (self st))
      then
        if \<not> pods (self st) then (Done (Inl NotInstantiated), st)
        else
          (case invoke k (PodsGet ''type=session'') (pods_get k ''type=session'') st of
             (answer, st1) \<Rightarrow> (Awaiting answer, st1))
      else
        (Done (Inr (case list_cache (self st) of None \<Rightarrow> Map.empty | Some m \<Rightarrow> m)), st))"

definition list_end ::
    "'w k8s \<Rightarrow> error + PodDescription list \<Rightarrow> 'w state
       \<Rightarrow> (error + (string \<rightharpoonup> SessionDescription)) \<times> 'w state" where
  "list_end k answer st1 =
     (case answer of
        Inl e \<Rightarrow> (Inl e, st1)
      | Inr podItems \<Rightarrow>
          (let sessions = sessions_of podItems;
               m = Map_of_entries (map (\<lambda>session. (sid session, session)) sessions)
           in (Inr m,
               st1\<lparr>self := (self st1)\<lparr>list_cache := Some m,
                                       listCachedAt := Some (now k (world st1))\<rparr>\<rparr>)))"

text \<open>
  A run of the program with any number of \<open>list()\<close> calls: the world takes a step of its own
  (time passes, pods come and go), a call starts, or the call whose answer is the \<open>i\<close>-th of
  those awaited gets it and goes on. \<open>in_turn\<close> holds of the runs in which no call starts
  while another awaits its answer, \<open>steady\<close> of the events that do not set the clock back.
\<close>

datatype 'w event = Passes "'w \<Rightarrow> 'w" | Starts | Resumes nat

fun step ::
    "'w k8s \<Rightarrow> 'w event \<Rightarrow> 'w state \<times> (error + PodDescription list) list
       \<Rightarrow> 'w state \<times> (error + PodDescription list) list" where
  "step k (Passes f) (st, awaited) = (st\<lparr>world := f (world st)\<rparr>, awaited)"
| "step k Starts (st, awaited) =
     (case list_begin k st of
        (Done r, st1) \<Rightarrow> (st1, awaited)
      | (Awaiting answer, st1) \<Rightarrow> (st1, awaited @ [answer]))"
| "step k (Resumes i) (st, awaited) =
     (if i < length awaited
      then (snd (list_end k (awaited ! i) st), take i awaited @ drop (Suc i) awaited)
      else (st, awaited))"

fun run ::
    "'w k8s \<Rightarrow> 'w event list \<Rightarrow> 'w state \<times> (error + PodDescription list) list
       \<Rightarrow> 'w state \<times> (error + PodDescription list) list" where
  "run k [] c = c"
| "run k (e # es) c = run k es (step k e c)"

fun in_turn ::
    "'w k8s \<Rightarrow> 'w event list \<Rightarrow> 'w state \<times> (error + PodDescription list) list \<Rightarrow> bool" where
  "in_turn k [] c = True"
| "in_turn k (e # es) c = ((e = Starts \<longrightarrow> snd c = []) \<and> in_turn k es (step k e c))"

fun steady :: "'w k8s \<Rightarrow> 'w event \<Rightarrow> bool" where
  "steady k (Passes f) = (\<forall>w. now k w \<le> now k (f w))"
| "steady k Starts = True"
| "steady k (Resumes i) = True"

text \<open>The calls a method issued: those of the state after it that the state before it
  did not have.\<close>

definition issued :: "'w state \<Rightarrow> 'w state \<Rightarrow> call list" where
  "issued st st' = drop (length (calls st)) (calls st')"

section \<open>The cluster base class (Cluster.js)\<close>

text \<open>
  Modelled from the spec: the pods \<open>Cluster.list\<close> returns come from a subclass that is not
  among the sources (\<open>list\<close> and \<open>spawn\<close> of the base class only throw "must be overidden").
  A pod is what \<open>resolve\<close> of the base class reads of it (\<open>ip\<close>, \<open>port\<close>, \<open>status\<close>) and the
  pool label the spec gives every pod. The \<open>Map\<close> of pods is the list of its entries, each
  key once; \<open>pods.size\<close> is the number of entries.
\<close>

record ClusterPod =
  pod_ip :: "string option"
  pod_port :: nat
  pod_phase :: string
  pool :: string

record cluster_config =
  STANDBY_POOL :: int
  STANDBY_FREQ :: int

text \<open>The methods a subclass provides, as steps of the world.\<close>

record 'w cluster_methods =
  list_method :: "'w \<Rightarrow> (string + (string \<times> ClusterPod) list) \<times> 'w"
  spawn_method :: "string option \<Rightarrow> string \<Rightarrow> string \<Rightarrow> 'w \<Rightarrow> 'w"

text \<open>
  What a run of \<open>fill\<close> leaves: the world, the \<open>spawn\<close> operations it started (environment,
  pool, reason), the errors it logged and the timers it set.
\<close>

record 'w fill_state =
  fill_world :: 'w
  spawns :: "(string option \<times> string \<times> string) list"
  errors_logged :: "string list"
  timers :: "int list"

function fill_loop ::
    "'w cluster_methods \<Rightarrow> int \<Rightarrow> int \<Rightarrow> 'w fill_state \<Rightarrow> 'w fill_state" where
  "fill_loop m index required st =
     (if index < required
      then fill_loop m (index + 1) required
             (st\<lparr>fill_world := spawn_method m None ''standby'' ''filling'' (fill_world st),
                 spawns := spawns st @ [(None, ''standby'', ''filling'')]\<rparr>)
      else st)"
  by pat_completeness auto
termination
  by (relation "measure (\<lambda>(m, index, required, st). nat (required - index))") auto

declare fill_loop.simps [simp del]

definition fill :: "cluster_config \<Rightarrow> 'w cluster_methods \<Rightarrow> 'w fill_state \<Rightarrow> 'w fill_state" where
  "fill cfg m st =
     (let st1 =
            (case list_method m (fill_world st) of
               (Inl err, w1) \<Rightarrow> st\<lparr>fill_world := w1, errors_logged := errors_logged st @ [err]\<rparr>
             | (Inr pods_listed, w1) \<Rightarrow>
                 (let required = STANDBY_POOL cfg - int (length pods_listed)
                  in fill_loop m 0 required (st\<lparr>fill_world := w1\<rparr>)))
      in st1\<lparr>timers := timers st1 @ [STANDBY_FREQ cfg]\<rparr>)"

text \<open>The count the spec's deficit is written with: the pods whose pool label is standby.\<close>

definition count_standby :: "(string \<times> ClusterPod) list \<Rightarrow> nat" where
  "count_standby pods_listed = length (filter (\<lambda>(k, p). pool p = ''standby'') pods_listed)"

section \<open>The host (Host.js)\<close>

text \<open>The bodies of requests are JavaScript object literals.\<close>

datatype json =
    JString string
  | JNumber int
  | JArray "json list"
  | JObject "(string \<times> json) list"

text \<open>A pod as the Kubernetes client of \<open>Host.js\<close> returns it.\<close>

record HostPod =
  metadata_name :: string
  metadata_labels :: "string \<rightharpoonup> string"
  status_phase :: string
  status_podIP :: "string option"

record DockerPort =
  IP :: string
  PublicPort :: nat

record DockerContainer =
  Id :: string
  Ports :: "DockerPort list"

text \<open>
  The world of the host: a Docker daemon, a Kubernetes control plane and the sources of
  random bytes and ports. A callback that gets an \<open>err\<close> is an \<open>Inl\<close> with its message.
\<close>

record 'w host_env =
  docker_listContainers :: "json \<Rightarrow> 'w \<Rightarrow> (string + DockerContainer list) \<times> 'w"
  docker_createContainer :: "json \<Rightarrow> 'w \<Rightarrow> (string + string) \<times> 'w"
  container_start :: "string \<Rightarrow> 'w \<Rightarrow> string option \<times> 'w"
  randomPort :: "'w \<Rightarrow> nat \<times> 'w"
  k8s_pods_get :: "string \<Rightarrow> 'w \<Rightarrow> (string + HostPod list) \<times> 'w"
  k8s_pod_patch :: "string \<Rightarrow> json \<Rightarrow> 'w \<Rightarrow> (string + HostPod) \<times> 'w"
  k8s_pods_post :: "json \<Rightarrow> 'w \<Rightarrow> (string + HostPod) \<times> 'w"
  k8s_pod_get :: "string \<Rightarrow> 'w \<Rightarrow> (string + HostPod) \<times> 'w"
  crypto_randomBytes_hex :: "nat \<Rightarrow> 'w \<Rightarrow> string \<times> 'w"

datatype host_call =
    ListContainers json
  | CreateContainer json
  | StartContainer string
  | ListPods string
  | PatchPod string json
  | CreatePod json
  | GetPod string

record 'w host_state =
  host_world :: 'w
  host_calls :: "host_call list"

record Host =
  host_id :: string
  NODE_ENV :: "string option"
  STENCILA_IMAGE :: string

definition POD_TIMEOUT :: nat where
  "POD_TIMEOUT = 3600"

text \<open>
  What became of the callback \<open>cb\<close> a method was given: it was never called, it was called
  with an error or with a value, or an exception was thrown before it could be called.
\<close>

datatype 'a callback = NotCalled | Called "string + 'a" | Threw

definition host_invoke ::
    "host_call \<Rightarrow> ('w \<Rightarrow> 'a \<times> 'w) \<Rightarrow> 'w host_state \<Rightarrow> 'a \<times> 'w host_state" where
  "host_invoke c f st =
     (case f (host_world st) of
        (r, w') \<Rightarrow> (r, st\<lparr>host_world := w', host_calls := host_calls st @ [c]\<rparr>))"

text \<open>A value inside a template literal: \<open>undefined\<close> is rendered as the word.\<close>

definition render :: "string option \<Rightarrow> string" where
  "render x = (case x of None \<Rightarrow> ''undefined'' | Some s \<Rightarrow> s)"

definition claim_labels :: "string \<Rightarrow> json" where
  "claim_labels hid =
     JObject [(''metadata'', JObject [(''labels'',
       JObject [(''pool'', JString ''claimed''), (''claimer'', JString hid)])])]"

definition aquire_labels :: "string \<Rightarrow> json" where
  "aquire_labels hid =
     JObject [(''metadata'', JObject [(''labels'',
       JObject [(''pool'', JString ''aquired''), (''aquirer'', JString hid)])])]"

definition standby_filter :: json where
  "standby_filter =
     JObject [(''limit'', JNumber 1),
              (''filters'', JString (''{'' @ [CHR 0x22] @ ''status'' @ [CHR 0x22] @ '': [''
                 @ [CHR 0x22] @ ''running'' @ [CHR 0x22] @ ''], '' @ [CHR 0x22] @ ''label''
                 @ [CHR 0x22] @ '': ['' @ [CHR 0x22] @ ''pool=standby'' @ [CHR 0x22] @ '']}''))]"

text \<open>The tests \<open>process.env.NODE_ENV === 'development'\<close> and
  \<open>pod.status.phase === 'Running'\<close>.\<close>

definition development :: "Host \<Rightarrow> bool" where
  "development h \<longleftrightarrow> NODE_ENV h = Some ''development''"

definition running :: "HostPod \<Rightarrow> bool" where
  "running pod \<longleftrightarrow> status_phase pod = ''Running''"

text \<open>
  \<open>aquire\<close>: the result is \<open>None\<close> when the method calls itself again without end. The \<open>for\<close>
  loop over \<open>pods.items\<close> acts on the first pod in phase \<open>Running\<close> and breaks.
\<close>

partial_function (option) aquire ::
    "'w host_env \<Rightarrow> Host \<Rightarrow> 'w host_state \<Rightarrow> (string option callback \<times> 'w host_state) option" where
  "aquire e h st =
     (if development h
      then
        (case host_invoke (ListContainers standby_filter)
                (docker_listContainers e standby_filter) st of
           (Inl err, st1) \<Rightarrow> Some (Called (Inl err), st1)
         | (Inr containers_found, st1) \<Rightarrow>
             (case containers_found of
                [] \<Rightarrow> Some (Called (Inr None), st1)
              | container # _ \<Rightarrow>
                  (case Ports container of
                     [] \<Rightarrow> Some (Threw, st1)
                   | p # _ \<Rightarrow>
                       Some (Called (Inr (Some (''http://'' @ IP p @ '':'' @ decimal (PublicPort p)))),
                             st1))))
      else
        (case host_invoke (ListPods ''pool=standby'') (k8s_pods_get e ''pool=standby'') st of
           (Inl err, st1) \<Rightarrow> Some (Called (Inl err), st1)
         | (Inr items, st1) \<Rightarrow>
             (case find running items of
                None \<Rightarrow> Some (NotCalled, st1)
              | Some pod \<Rightarrow>
                  (case host_invoke (PatchPod (metadata_name pod) (claim_labels (host_id h)))
                          (k8s_pod_patch e (metadata_name pod) (claim_labels (host_id h))) st1 of
                     (Inl err, st2) \<Rightarrow> Some (Called (Inl err), st2)
                   | (Inr claimed, st2) \<Rightarrow>
                       if metadata_labels claimed ''claimer'' = Some (host_id h)
                       then
                         (case host_invoke
                                 (PatchPod (metadata_name claimed) (aquire_labels (host_id h)))
                                 (k8s_pod_patch e (metadata_name claimed)
                                    (aquire_labels (host_id h))) st2 of
                            (Inl err, st3) \<Rightarrow> Some (Called (Inl err), st3)
                          | (Inr aquired, st3) \<Rightarrow>
                              Some (Called (Inr (Some (''http://'' @ render (status_podIP aquired)
                                                        @ '':2000''))), st3))
                       else aquire e h st2))))"

text \<open>\<open>awaitPod\<close> of \<open>spawn\<close>: asks for the pod again (after 300 ms) until it is running.\<close>

partial_function (option) awaitPod ::
    "'w host_env \<Rightarrow> string \<Rightarrow> nat \<Rightarrow> 'w host_state \<Rightarrow> (string callback \<times> 'w host_state) option" where
  "awaitPod e pod_name port_used st =
     (case host_invoke (GetPod pod_name) (k8s_pod_get e pod_name) st of
        (Inl err, st1) \<Rightarrow> Some (Called (Inl err), st1)
      | (Inr pod, st1) \<Rightarrow>
          if running pod
          then Some (Called (Inr (''http://'' @ render (status_podIP pod) @ '':''
                                   @ decimal port_used)), st1)
          else awaitPod e pod_name port_used st1)"

definition spawn_cmd :: "string list" where
  "spawn_cmd = [''node'']"

definition spawn_args :: "string list" where
  "spawn_args =
     [''-e'', ''require('' @ [CHR 0x22] @ ''stencila-node'' @ [CHR 0x22] @ '').run(''
              @ [CHR 0x22] @ ''0.0.0.0'' @ [CHR 0x22] @ '', 2000, false, ''
              @ decimal POD_TIMEOUT @ '')'']"

definition docker_options :: "Host \<Rightarrow> nat \<Rightarrow> json" where
  "docker_options h port_used =
     JObject [(''Image'', JString (STENCILA_IMAGE h)),
              (''Cmd'', JArray (map JString (spawn_cmd @ spawn_args))),
              (''ExposedPorts'', JObject [(''2000/tcp'', JObject [])]),
              (''HostConfig'', JObject [(''PortBindings'', JObject [(''2000/tcp'',
                 JArray [JObject [(''HostIp'', JString ''127.0.0.1''),
                                  (''HostPort'', JString (decimal port_used))]])])])]"

definition pod_body :: "Host \<Rightarrow> string \<Rightarrow> nat \<Rightarrow> json" where
  "pod_body h pod_name port_used =
     JObject [(''kind'', JString ''Pod''),
              (''apiVersion'', JString ''v1''),
              (''metadata'', JObject [(''name'', JString pod_name),
                 (''type'', JString ''stencila-cloud-pod''),
                 (''metadata'', JObject [(''labels'',
                    JObject [(''pool'', JString ''spawned''), (''spawner'', JString (host_id h))])])]),
              (''spec'', JObject [(''containers'', JArray [JObject
                 [(''name'', JString ''stencila-container''),
                  (''image'', JString (STENCILA_IMAGE h)),
                  (''imagePullPolicy'', JString ''IfNotPresent''),
                  (''command'', JArray (map JString spawn_cmd)),
                  (''args'', JArray (map JString spawn_args)),
                  (''resources'', JObject
                     [(''requests'', JObject [(''memory'', JString ''500Mi''),
                                              (''cpu'', JString ''250m'')]),
                      (''limits'', JObject [(''memory'', JString ''2Gi''),
                                            (''cpu'', JString ''1000m'')])]),
                  (''ports'', JArray [JObject [(''containerPort'', JNumber (int port_used))]])]]),
                 (''restartPolicy'', JString ''Never'')])]"

definition host_spawn ::
    "'w host_env \<Rightarrow> Host \<Rightarrow> 'w host_state \<Rightarrow> (string callback \<times> 'w host_state) option" where
  "host_spawn e h st =
     (if development h
      then
        (case randomPort e (host_world st) of
           (port_used, w1) \<Rightarrow>
             (case host_invoke (CreateContainer (docker_options h port_used))
                     (docker_createContainer e (docker_options h port_used))
                     (st\<lparr>host_world := w1\<rparr>) of
                (Inl err, st1) \<Rightarrow> Some (Called (Inl err), st1)
              | (Inr container_id, st1) \<Rightarrow>
                  (case host_invoke (StartContainer container_id)
                          (container_start e container_id) st1 of
                     (Some err, st2) \<Rightarrow> Some (Called (Inl err), st2)
                   | (None, st2) \<Rightarrow>
                       Some (Called (Inr (''http://127.0.0.1:'' @ decimal port_used)), st2))))
      else
        (case crypto_randomBytes_hex e 12 (host_world st) of
           (rand, w1) \<Rightarrow>
             (let pod_name = ''stencila-cloud-pod-'' @ rand;
                  port_used = 2000
              in case host_invoke (CreatePod (pod_body h pod_name port_used))
                        (k8s_pods_post e (pod_body h pod_name port_used))
                        (st\<lparr>host_world := w1\<rparr>) of
                   (Inl err, st1) \<Rightarrow> Some (Called (Inl err), st1)
                 | (Inr pod, st1) \<Rightarrow> awaitPod e pod_name port_used st1)))"

definition obtain_pod ::
    "'w host_env \<Rightarrow> Host \<Rightarrow> 'w host_state \<Rightarrow> (string callback \<times> 'w host_state) option" where
  "obtain_pod e h st =
     (case aquire e h st of
        None \<Rightarrow> None
      | Some (NotCalled, st1) \<Rightarrow> Some (NotCalled, st1)
      | Some (Threw, st1) \<Rightarrow> Some (Threw, st1)
      | Some (Called (Inl err), st1) \<Rightarrow> Some (Called (Inl err), st1)
      | Some (Called (Inr pod), st1) \<Rightarrow>
          (case given_str pod of
             Some url \<Rightarrow> Some (Called (Inr url), st1)
           | None \<Rightarrow> host_spawn e h st1))"


section \<open>Properties of runs, and worlds for the examples\<close>

text \<open>
  \<open>spaced r cs\<close>: after a call of the record \<open>cs\<close> that was answered, every later call of
  the record was issued more than \<open>r\<close> milliseconds later.
\<close>

definition spaced :: "int \<Rightarrow> call list \<Rightarrow> bool" where
  "spaced r cs \<longleftrightarrow>
     (\<forall>i j. i < j \<and> j < length cs \<and> succeeded (cs ! i) \<longrightarrow>
        issued_at (cs ! j) - issued_at (cs ! i) > r)"

text \<open>
  What a run whose calls go in turn keeps true of the calls recorded: they are spaced, none
  is later than the clock, and the cache is dated no earlier than any answered call whose
  answer has been taken.
\<close>

definition dated :: "'w state \<Rightarrow> call list \<Rightarrow> bool" where
  "dated st cs \<longleftrightarrow>
     (\<forall>e \<in> set cs. succeeded e \<longrightarrow> (\<exists>t. listCachedAt (self st) = Some t \<and> issued_at e \<le> t))"

definition run_inv :: "'w k8s \<Rightarrow> 'w state \<times> (error + PodDescription list) list \<Rightarrow> bool" where
  "run_inv k c \<longleftrightarrow>
     (case c of (st, awaited) \<Rightarrow>
        spaced (listRefresh (self st)) (calls st) \<and>
        (\<forall>e \<in> set (calls st). issued_at e \<le> now k (world st)) \<and>
        (case awaited of
           [] \<Rightarrow> dated st (calls st)
         | [answer] \<Rightarrow>
             calls st \<noteq> [] \<and> succeeded (last (calls st)) = (\<not> isl answer) \<and>
             dated st (butlast (calls st))
         | _ \<Rightarrow> False))"





definition a_pod :: "string \<Rightarrow> int \<Rightarrow> string option \<Rightarrow> string \<Rightarrow> PodDescription" where
  "a_pod n t a ph =
     \<lparr>metadata = \<lparr>name = n, creationTimestamp = t\<rparr>, pod_status = \<lparr>podIP = a, phase = ph\<rparr>\<rparr>"

text \<open>
  A world that is its clock: every call to the control plane takes 5 ms. The control plane of
  \<open>demo_k8s items\<close> holds the pods \<open>items\<close> and accepts every pod; that of \<open>flaky_k8s\<close>
  rejects every call and answers at once.
\<close>

definition demo_k8s :: "PodDescription list \<Rightarrow> int k8s" where
  "demo_k8s items =
     \<lparr>pods_get = (\<lambda>sel w. (Inr items, w + 5)),
      pod_get = (\<lambda>n w. (case find (\<lambda>p. name (metadata p) = n) items of
                            None \<Rightarrow> Inl ''not found''
                          | Some p \<Rightarrow> Inr p, w + 5)),
      pods_post = (\<lambda>rq w. (Inr (a_pod (req_name (req_metadata rq)) w None ''Pending''), w + 5)),
      now = (\<lambda>w. w),
      toISOString = (\<lambda>t. ''2019-03-01T12:00:00.000Z''),
      randomBytes_hex = (\<lambda>n i. replicate (2 * n) CHR ''a'')\<rparr>"

definition flaky_k8s :: "int k8s" where
  "flaky_k8s =
     \<lparr>pods_get = (\<lambda>sel w. (Inl ''unavailable'', w)),
      pod_get = (\<lambda>n w. (Inl ''unavailable'', w)),
      pods_post = (\<lambda>rq w. (Inl ''unavailable'', w)),
      now = (\<lambda>w. w),
      toISOString = (\<lambda>t. ''2019-03-01T12:00:00.000Z''),
      randomBytes_hex = (\<lambda>n i. replicate (2 * n) CHR ''a'')\<rparr>"

definition wait :: "int \<Rightarrow> int \<Rightarrow> int" where
  "wait d w = w + d"

text \<open>A cluster just constructed, and one on which \<open>init\<close> has run, at time 0.\<close>

definition fresh_state :: "int state" where
  "fresh_state =
     \<lparr>self = new_KubernetesCluster default_config, world = 0, entropy = 0, calls = []\<rparr>"

definition demo_state :: "int state" where
  "demo_state =
     \<lparr>self = init (new_KubernetesCluster default_config), world = 0, entropy = 0, calls = []\<rparr>"

text \<open>A cluster whose cache was filled, with no pods, at time 0; it is now time 100.\<close>

definition warm_state :: "int state" where
  "warm_state =
     \<lparr>self = (init (new_KubernetesCluster default_config))
               \<lparr>list_cache := Some Map.empty, listCachedAt := Some 0\<rparr>,
      world = 100, entropy = 0, calls = []\<rparr>"

definition alpine_container :: ContainerDescription where
  "alpine_container =
     \<lparr>image = ''alpine'', cmd = [''sleep'', ''90''], vars = [], imagePullPolicy = None\<rparr>"

definition alpine_session :: SoftwareSession where
  "alpine_session = \<lparr>environment = \<lparr>env_id = ''alpine''\<rparr>, ram = None, cpu_of = None\<rparr>"

definition unknown_session :: SoftwareSession where
  "unknown_session = \<lparr>environment = \<lparr>env_id = ''no/such''\<rparr>, ram = None, cpu_of = None\<rparr>"

text \<open>A subclass of \<open>Cluster\<close> whose \<open>list\<close> returns the given pods; its world counts the pods
  spawned.\<close>

definition demo_methods :: "(string \<times> ClusterPod) list \<Rightarrow> nat cluster_methods" where
  "demo_methods pods_listed =
     \<lparr>list_method = (\<lambda>w. (Inr pods_listed, w)),
      spawn_method = (\<lambda>environId pool_given reason_given w. w + 1)\<rparr>"

definition small_pool :: cluster_config where
  "small_pool = \<lparr>STANDBY_POOL = 2, STANDBY_FREQ = 30000\<rparr>"

definition idle_fill :: "nat fill_state" where
  "idle_fill = \<lparr>fill_world = 0, spawns = [], errors_logged = [], timers = []\<rparr>"

definition session_pod :: ClusterPod where
  "session_pod = \<lparr>pod_ip = Some ''10.0.0.7'', pod_port = 2000, pod_phase = ''Running'',
                  pool = ''aquired''\<rparr>"

text \<open>
  A world of the host that counts the calls made to it. Its control plane lists the pods
  \<open>items\<close>, and answers every patch with the pod carrying the label \<open>claimer = claimer\<close>.
\<close>

definition host_pod :: "string \<Rightarrow> string \<Rightarrow> string \<Rightarrow> HostPod" where
  "host_pod n ph claimer =
     \<lparr>metadata_name = n, metadata_labels = [''claimer'' \<mapsto> claimer], status_phase = ph,
      status_podIP = Some ''10.0.0.9''\<rparr>"

definition demo_env :: "HostPod list \<Rightarrow> string \<Rightarrow> nat host_env" where
  "demo_env items claimer =
     \<lparr>docker_listContainers = (\<lambda>opts w. (Inr [], w + 1)),
      docker_createContainer = (\<lambda>opts w. (Inr ''c0'', w + 1)),
      container_start = (\<lambda>c w. (None, w + 1)),
      randomPort = (\<lambda>w. (2010, w)),
      k8s_pods_get = (\<lambda>sel w. (Inr items, w + 1)),
      k8s_pod_patch = (\<lambda>n body w. (Inr (host_pod n ''Running'' claimer), w + 1)),
      k8s_pods_post = (\<lambda>body w. (Inr (host_pod ''spawned'' ''Pending'' ''none''), w + 1)),
      k8s_pod_get = (\<lambda>n w. (Inr (host_pod n ''Running'' ''none''), w + 1)),
      crypto_randomBytes_hex = (\<lambda>n w. (replicate (2 * n) CHR ''a'', w))\<rparr>"

text \<open>
  The world of \<open>contested_env\<close> is the number of claims still to be lost: while it is
  positive, a patch is answered with the pod claimed by another host. In \<open>conflict_env\<close>
  every patch is rejected. \<open>lost_claims n\<close> are the calls of \<open>n\<close> lost claims.
\<close>

definition contested_env :: "nat host_env" where
  "contested_env =
     \<lparr>docker_listContainers = (\<lambda>opts w. (Inr [], w)),
      docker_createContainer = (\<lambda>opts w. (Inr ''c0'', w)),
      container_start = (\<lambda>c w. (None, w)),
      randomPort = (\<lambda>w. (2010, w)),
      k8s_pods_get = (\<lambda>sel w. (Inr [host_pod ''p1'' ''Running'' ''none''], w)),
      k8s_pod_patch = (\<lambda>n body w.
         (Inr (host_pod n ''Running'' (if 0 < w then ''cloud-2'' else ''cloud-1'')), w - 1)),
      k8s_pods_post = (\<lambda>body w. (Inr (host_pod ''spawned'' ''Pending'' ''none''), w)),
      k8s_pod_get = (\<lambda>n w. (Inr (host_pod n ''Running'' ''none''), w)),
      crypto_randomBytes_hex = (\<lambda>n w. (replicate (2 * n) CHR ''a'', w))\<rparr>"

definition conflict_env :: "nat host_env" where
  "conflict_env =
     \<lparr>docker_listContainers = (\<lambda>opts w. (Inr [], w)),
      docker_createContainer = (\<lambda>opts w. (Inr ''c0'', w)),
      container_start = (\<lambda>c w. (None, w)),
      randomPort = (\<lambda>w. (2010, w)),
      k8s_pods_get = (\<lambda>sel w. (Inr [host_pod ''p1'' ''Running'' ''none''], w)),
      k8s_pod_patch = (\<lambda>n body w. (Inl ''conflict'', w)),
      k8s_pods_post = (\<lambda>body w. (Inr (host_pod ''spawned'' ''Pending'' ''none''), w)),
      k8s_pod_get = (\<lambda>n w. (Inr (host_pod n ''Running'' ''none''), w)),
      crypto_randomBytes_hex = (\<lambda>n w. (replicate (2 * n) CHR ''a'', w))\<rparr>"


definition production_host :: Host where
  "production_host =
     \<lparr>host_id = ''cloud-1'', NODE_ENV = Some ''production'', STENCILA_IMAGE = ''stencila/alpha''\<rparr>"

definition development_host :: Host where
  "development_host =
     \<lparr>host_id = ''cloud-1'', NODE_ENV = Some ''development'', STENCILA_IMAGE = ''stencila/alpha''\<rparr>"

definition host_start :: "nat host_state" where
  "host_start = \<lparr>host_world = 0, host_calls = []\<rparr>"

section \<open>Resource policy: properties\<close>

lemma limits_cpu_of_shares:
  "cpu (limits (softwareSessionToResourceLimitsTransformer cfg session)) =
     (case given (cpuShares session) of
        Some v \<Rightarrow> Quantity (v / 1024 * 1000) ''m''
      | None \<Rightarrow> Quantity (POD_LIMIT_CPU cfg) ''m'')"
  by (simp add: softwareSessionToResourceLimitsTransformer_def cpuShares_def Let_def
      split: option.split)

lemma requests_memory_of_reservation:
  "memory (requests (softwareSessionToResourceLimitsTransformer cfg session)) =
     (case given (ramReservation session) of
        Some v \<Rightarrow> Quantity v ''Gi''
      | None \<Rightarrow> Quantity (POD_REQUEST_MEM cfg) ''Gi'')"
  by (simp add: softwareSessionToResourceLimitsTransformer_def ramReservation_def Let_def
      split: option.split)

lemma limits_memory_of_limit:
  "memory (limits (softwareSessionToResourceLimitsTransformer cfg session)) =
     (case given (ramLimit session) of
        Some v \<Rightarrow> Quantity v ''Gi''
      | None \<Rightarrow> Quantity (POD_LIMIT_MEM cfg) ''Gi'')"
  by (simp add: softwareSessionToResourceLimitsTransformer_def ramLimit_def Let_def
      split: option.split)

text \<open>
  C7, as the claim states it, fails for a session that gives \<open>cpu.shares = 0\<close>: the condition
  \<open>session.cpu && session.cpu.shares\<close> is false for the number \<open>0\<close>, and the limit is the
  default \<open>1000m\<close>, not \<open>0 / 1024 * 1000 = 0\<close> millicores.
\<close>

theorem C7_zero_shares_counterexample:
  "cpuShares \<lparr>environment = \<lparr>env_id = ''alpine''\<rparr>, ram = None,
               cpu_of = Some \<lparr>shares = Some 0\<rparr>\<rparr> = Some 0 \<and>
   cpu (limits (softwareSessionToResourceLimitsTransformer default_config
          \<lparr>environment = \<lparr>env_id = ''alpine''\<rparr>, ram = None,
            cpu_of = Some \<lparr>shares = Some 0\<rparr>\<rparr>)) = Quantity 1000 ''m'' \<and>
   Quantity 1000 ''m'' \<noteq> Quantity (0 / 1024 * 1000) ''m''"
  by (simp add: limits_cpu_of_shares cpuShares_def given_def default_config_def load_config_def)

text \<open>
  C7 (amended): resource derivation is a function of the session request and the configured
  defaults alone. When \<open>cpuShares\<close> is given and is not zero, the CPU limit is
  \<open>shares / 1024 * 1000\<close> millicores; when it is absent or zero, the CPU limit is the
  configured default unchanged. The memory reservation and the memory limit are the session's
  value when that is given and not zero, and the process default otherwise.
\<close>

theorem C7_resource_derivation:
  "(\<forall>v. cpuShares session = Some v \<and> v \<noteq> 0 \<longrightarrow>
      cpu (limits (softwareSessionToResourceLimitsTransformer cfg session)) =
        Quantity (v / 1024 * 1000) ''m'') \<and>
   (cpuShares session = None \<or> cpuShares session = Some 0 \<longrightarrow>
      cpu (limits (softwareSessionToResourceLimitsTransformer cfg session)) =
        Quantity (POD_LIMIT_CPU cfg) ''m'') \<and>
   (\<forall>v. ramReservation session = Some v \<and> v \<noteq> 0 \<longrightarrow>
      memory (requests (softwareSessionToResourceLimitsTransformer cfg session)) =
        Quantity v ''Gi'') \<and>
   (ramReservation session = None \<or> ramReservation session = Some 0 \<longrightarrow>
      memory (requests (softwareSessionToResourceLimitsTransformer cfg session)) =
        Quantity (POD_REQUEST_MEM cfg) ''Gi'') \<and>
   (\<forall>v. ramLimit session = Some v \<and> v \<noteq> 0 \<longrightarrow>
      memory (limits (softwareSessionToResourceLimitsTransformer cfg session)) =
        Quantity v ''Gi'') \<and>
   (ramLimit session = None \<or> ramLimit session = Some 0 \<longrightarrow>
      memory (limits (softwareSessionToResourceLimitsTransformer cfg session)) =
        Quantity (POD_LIMIT_MEM cfg) ''Gi'')"
  unfolding limits_cpu_of_shares requests_memory_of_reservation limits_memory_of_limit
  by (auto simp: given_def)

theorem C7_resource_derivation_witness:
  "cpuShares \<lparr>environment = \<lparr>env_id = ''alpine''\<rparr>, ram = None,
               cpu_of = Some \<lparr>shares = Some 512\<rparr>\<rparr> = Some 512 \<and>
   ramReservation \<lparr>environment = \<lparr>env_id = ''alpine''\<rparr>, ram = None,
               cpu_of = Some \<lparr>shares = Some 512\<rparr>\<rparr> = None \<and>
   ramLimit \<lparr>environment = \<lparr>env_id = ''alpine''\<rparr>, ram = None,
               cpu_of = Some \<lparr>shares = Some 512\<rparr>\<rparr> = None \<and>
   limits (softwareSessionToResourceLimitsTransformer default_config
          \<lparr>environment = \<lparr>env_id = ''alpine''\<rparr>, ram = None,
            cpu_of = Some \<lparr>shares = Some 512\<rparr>\<rparr>) =
     \<lparr>memory = Quantity (12 / 10) ''Gi'', cpu = Quantity 500 ''m''\<rparr> \<and>
   memory (requests (softwareSessionToResourceLimitsTransformer default_config
          \<lparr>environment = \<lparr>env_id = ''alpine''\<rparr>, ram = None,
            cpu_of = Some \<lparr>shares = Some 512\<rparr>\<rparr>)) = Quantity (50 / 1024) ''Gi''"
  using C7_resource_derivation [of
      "\<lparr>environment = \<lparr>env_id = ''alpine''\<rparr>, ram = None, cpu_of = Some \<lparr>shares = Some 512\<rparr>\<rparr>"
      default_config]
  by (simp add: cpuShares_def ramReservation_def ramLimit_def default_config_def
      load_config_def given_def)

text \<open>
  C10: the CPU request of the derived resource spec is the process-wide constant
  \<open>POD_REQUEST_CPU\<close> for every session, so two sessions, whatever resource needs they declare,
  get the same \<open>requests.cpu\<close>.
\<close>

theorem C10_request_cpu_constant:
  "cpu (requests (softwareSessionToResourceLimitsTransformer cfg session)) =
     Quantity (POD_REQUEST_CPU cfg) ''m'' \<and>
   cpu (requests (softwareSessionToResourceLimitsTransformer cfg session)) =
     cpu (requests (softwareSessionToResourceLimitsTransformer cfg session'))"
  by (simp add: softwareSessionToResourceLimitsTransformer_def Let_def)

section \<open>Maps, sorting and ranks\<close>

lemma foldl_upd_map_of:
  "foldl (\<lambda>m (k, v). m(k \<mapsto> v)) m es = m ++ map_of (rev es)"
proof (induction es arbitrary: m)
  case Nil
  then show ?case by simp
next
  case (Cons e es)
  obtain k v where e: "e = (k, v)" by (cases e)
  have "foldl (\<lambda>m (k, v). m(k \<mapsto> v)) m (e # es) =
        foldl (\<lambda>m (k, v). m(k \<mapsto> v)) (m(k \<mapsto> v)) es"
    by (simp add: e)
  also have "\<dots> = m(k \<mapsto> v) ++ map_of (rev es)"
    by (rule Cons.IH)
  also have "\<dots> = m ++ map_of (rev (e # es))"
    by (rule ext) (simp add: e map_of_append map_add_def split: option.split)
  finally show ?case .
qed


lemma pending_update [simp]: "pending (s\<lparr>pendingPosition := n\<rparr>) = pending s"
  by (simp add: pending_def)










section \<open>The cases of \<open>list\<close>\<close>

lemma list_hit:
  assumes "listCachedAt (self st) = Some t" "now k (world st) - t \<le> listRefresh (self st)"
  shows "list k st = (Inr (case list_cache (self st) of None \<Rightarrow> Map.empty | Some m \<Rightarrow> m), st)"
  using assms by (simp add: list_def)

lemma list_not_instantiated:
  assumes "case listCachedAt (self st) of None \<Rightarrow> True
           | Some cachedAt \<Rightarrow> now k (world st) - cachedAt > listRefresh (self st)"
    and "\<not> pods (self st)"
  shows "list k st = (Inl NotInstantiated, st)"
  using assms by (simp add: list_def)

lemma list_refresh:
  assumes "case listCachedAt (self st) of None \<Rightarrow> True
           | Some cachedAt \<Rightarrow> now k (world st) - cachedAt > listRefresh (self st)"
    and "pods (self st)"
    and "pods_get k ''type=session'' (world st) = (Inr podItems, w')"
  shows "list k st =
    (Inr (Map_of_entries (map (\<lambda>session. (sid session, session)) (sessions_of podItems))),
     st\<lparr>self := (self st)\<lparr>list_cache := Some (Map_of_entries (map (\<lambda>session. (sid session, session)) (sessions_of podItems))),
                         listCachedAt := Some (now k w')\<rparr>,
        world := w',
        calls := calls st @ [\<lparr>issued_at = now k (world st), request_of = PodsGet ''type=session'', succeeded = True\<rparr>]\<rparr>)"
  using assms by (simp add: list_def invoke_def Let_def)

lemma list_rejected:
  assumes "case listCachedAt (self st) of None \<Rightarrow> True
           | Some cachedAt \<Rightarrow> now k (world st) - cachedAt > listRefresh (self st)"
    and "pods (self st)"
    and "pods_get k ''type=session'' (world st) = (Inl msg, w')"
  shows "list k st =
    (Inl (ControlPlaneError msg),
     st\<lparr>world := w',
        calls := calls st @ [\<lparr>issued_at = now k (world st), request_of = PodsGet ''type=session'', succeeded = False\<rparr>]\<rparr>)"
  using assms by (simp add: list_def invoke_def Let_def)

lemma spaced_Nil: "spaced r []"
  by (simp add: spaced_def)

lemma spaced_snoc:
  "spaced r (cs @ [c]) \<longleftrightarrow>
     spaced r cs \<and> (\<forall>e \<in> set cs. succeeded e \<longrightarrow> issued_at c - issued_at e > r)"
proof
  assume a: "spaced r (cs @ [c])"
  have "spaced r cs"
    unfolding spaced_def
  proof (intro allI impI)
    fix i j assume h: "i < j \<and> j < length cs \<and> succeeded (cs ! i)"
    with a have "issued_at ((cs @ [c]) ! j) - issued_at ((cs @ [c]) ! i) > r"
      unfolding spaced_def by (metis (no_types, lifting) length_append_singleton less_Suc_eq nth_append order_less_trans)
    with h show "issued_at (cs ! j) - issued_at (cs ! i) > r"
      by (simp add: nth_append)
  qed
  moreover have "\<forall>e \<in> set cs. succeeded e \<longrightarrow> issued_at c - issued_at e > r"
  proof (intro ballI impI)
    fix e assume "e \<in> set cs" "succeeded e"
    then obtain i where i: "i < length cs" "cs ! i = e" by (auto simp: in_set_conv_nth)
    with \<open>succeeded e\<close> have "i < length cs \<and> length cs < length (cs @ [c]) \<and> succeeded ((cs @ [c]) ! i)"
      by (simp add: nth_append)
    from a [unfolded spaced_def, rule_format, OF this]
    have "issued_at ((cs @ [c]) ! length cs) - issued_at ((cs @ [c]) ! i) > r" .
    with i show "issued_at c - issued_at e > r" by (simp add: nth_append)
  qed
  ultimately show "spaced r cs \<and> (\<forall>e \<in> set cs. succeeded e \<longrightarrow> issued_at c - issued_at e > r)" ..
next
  assume a: "spaced r cs \<and> (\<forall>e \<in> set cs. succeeded e \<longrightarrow> issued_at c - issued_at e > r)"
  show "spaced r (cs @ [c])"
    unfolding spaced_def
  proof (intro allI impI)
    fix i j assume h: "i < j \<and> j < length (cs @ [c]) \<and> succeeded ((cs @ [c]) ! i)"
    then have il: "i < length cs" by simp
    show "issued_at ((cs @ [c]) ! j) - issued_at ((cs @ [c]) ! i) > r"
    proof (cases "j < length cs")
      case True
      with a h il show ?thesis unfolding spaced_def by (simp add: nth_append)
    next
      case False
      with h have j: "j = length cs" by simp
      from il have "cs ! i \<in> set cs" by simp
      with a h il show ?thesis by (simp add: nth_append j)
    qed
  qed
qed

lemma list_begin_end:
  "list k st =
     (case list_begin k st of
        (Done r, st1) \<Rightarrow> (r, st1)
      | (Awaiting answer, st1) \<Rightarrow> list_end k answer st1)"
  by (simp add: list_def list_begin_def list_end_def split: prod.split sum.split)

lemma list_begin_hit:
  assumes "case listCachedAt (self st) of None \<Rightarrow> False
           | Some cachedAt \<Rightarrow> now k (world st) - cachedAt \<le> listRefresh (self st)"
  shows "list_begin k st =
           (Done (Inr (case list_cache (self st) of None \<Rightarrow> Map.empty | Some m \<Rightarrow> m)), st)"
  using assms by (simp add: list_begin_def split: option.splits)

lemma list_begin_not_instantiated:
  assumes "case listCachedAt (self st) of None \<Rightarrow> True
           | Some cachedAt \<Rightarrow> now k (world st) - cachedAt > listRefresh (self st)"
    and "\<not> pods (self st)"
  shows "list_begin k st = (Done (Inl NotInstantiated), st)"
  using assms by (simp add: list_begin_def)

lemma list_begin_issues:
  assumes "case listCachedAt (self st) of None \<Rightarrow> True
           | Some cachedAt \<Rightarrow> now k (world st) - cachedAt > listRefresh (self st)"
    and "pods (self st)"
    and "pods_get k ''type=session'' (world st) = (r, w')"
  shows "list_begin k st =
    (Awaiting (case r of Inl m \<Rightarrow> Inl (ControlPlaneError m) | Inr v \<Rightarrow> Inr v),
     st\<lparr>world := w',
        calls := calls st @ [\<lparr>issued_at = now k (world st), request_of = PodsGet ''type=session'',
                              succeeded = \<not> isl r\<rparr>]\<rparr>)"
  using assms by (simp add: list_begin_def invoke_def)

lemma list_end_rejected: "snd (list_end k (Inl e) st) = st"
  by (simp add: list_end_def)

lemma list_end_answered:
  "snd (list_end k (Inr podItems) st) =
     st\<lparr>self := (self st)\<lparr>list_cache :=
                 Some (Map_of_entries (map (\<lambda>session. (sid session, session)) (sessions_of podItems))),
               listCachedAt := Some (now k (world st))\<rparr>\<rparr>"
  by (simp add: list_end_def Let_def)

lemma dated_world [simp]: "dated (st\<lparr>world := w\<rparr>) cs = dated st cs"
  by (simp add: dated_def)

lemma dated_calls [simp]: "dated (st\<lparr>calls := cs'\<rparr>) cs = dated st cs"
  by (simp add: dated_def)

lemma dated_snoc_failed: "\<not> succeeded c \<Longrightarrow> dated st (cs @ [c]) = dated st cs"
  by (auto simp: dated_def)

lemma step_keeps_inv:
  assumes mono: "\<forall>sel w. now k w \<le> now k (snd (pods_get k sel w))"
    and r: "0 \<le> listRefresh (self (fst c))"
    and inv: "run_inv k c"
    and st: "steady k e"
    and turn: "e = Starts \<longrightarrow> snd c = []"
  shows "run_inv k (step k e c) \<and> listRefresh (self (fst (step k e c))) = listRefresh (self (fst c))"
proof -
  obtain st awaited where c: "c = (st, awaited)" by (cases c)
  from inv have sp: "spaced (listRefresh (self st)) (calls st)"
    and past: "\<forall>e \<in> set (calls st). issued_at e \<le> now k (world st)"
    by (simp_all add: run_inv_def c)
  show ?thesis
  proof (cases e)
    case (Passes f)
    with st have f: "now k (world st) \<le> now k (f (world st))" by simp
    have "\<forall>e \<in> set (calls st). issued_at e \<le> now k (f (world st))"
    proof
      fix e assume "e \<in> set (calls st)"
      with past have "issued_at e \<le> now k (world st)" by blast
      with f show "issued_at e \<le> now k (f (world st))" by simp
    qed
    with inv show ?thesis
      by (simp add: Passes c run_inv_def split: list.splits)
  next
    case Starts
    with turn c have aw: "awaited = []" by simp
    with inv have d: "dated st (calls st)" by (simp add: run_inv_def c)
    show ?thesis
    proof (cases "case listCachedAt (self st) of None \<Rightarrow> True
           | Some cachedAt \<Rightarrow> now k (world st) - cachedAt > listRefresh (self st)")
      case False
      then have "case listCachedAt (self st) of None \<Rightarrow> False
           | Some cachedAt \<Rightarrow> now k (world st) - cachedAt \<le> listRefresh (self st)"
        by (simp split: option.splits)
      from list_begin_hit [OF this] inv show ?thesis by (simp add: Starts c)
    next
      case stale: True
      show ?thesis
      proof (cases "pods (self st)")
        case False
        from list_begin_not_instantiated [OF stale this] inv show ?thesis by (simp add: Starts c)
      next
        case True
        obtain res w' where pg: "pods_get k ''type=session'' (world st) = (res, w')"
          by (cases "pods_get k ''type=session'' (world st)")
        have w': "now k (world st) \<le> now k w'"
          using mono [rule_format, of "world st" "''type=session''"] by (simp add: pg)
        have later: "\<forall>e \<in> set (calls st). succeeded e \<longrightarrow>
                   now k (world st) - issued_at e > listRefresh (self st)"
        proof (intro ballI impI)
          fix e assume "e \<in> set (calls st)" "succeeded e"
          with d obtain t where t: "listCachedAt (self st) = Some t" "issued_at e \<le> t"
            unfolding dated_def by blast
          with stale have "now k (world st) - t > listRefresh (self st)" by simp
          with t show "now k (world st) - issued_at e > listRefresh (self st)" by simp
        qed
        have past': "\<forall>e \<in> set (calls st). issued_at e \<le> now k w'"
        proof
          fix e assume "e \<in> set (calls st)"
          with past have "issued_at e \<le> now k (world st)" by blast
          with w' show "issued_at e \<le> now k w'" by simp
        qed
        have isl: "isl (case res of Inl m \<Rightarrow> Inl (ControlPlaneError m) | Inr v \<Rightarrow> Inr v) = isl res"
          by (cases res) simp_all
        from list_begin_issues [OF stale True pg] sp later past' w' d show ?thesis
          by (simp add: Starts c aw run_inv_def spaced_snoc isl)
      qed
    qed
  next
    case (Resumes i)
    show ?thesis
    proof (cases "i < length awaited")
      case False
      with inv show ?thesis by (simp add: Resumes c)
    next
      case True
      with inv obtain answer where aw: "awaited = [answer]"
        by (cases awaited; cases "tl awaited") (simp_all add: run_inv_def c)
      with True have i: "i = 0" by simp
      from inv aw have ne: "calls st \<noteq> []"
        and su: "succeeded (last (calls st)) = (\<not> isl answer)"
        and d: "dated st (butlast (calls st))"
        by (simp_all add: run_inv_def c)
      from ne have sn: "calls st = butlast (calls st) @ [last (calls st)]" by simp
      show ?thesis
      proof (cases answer)
        case (Inl err)
        with su have "\<not> succeeded (last (calls st))" by simp
        from dated_snoc_failed [OF this, of st "butlast (calls st)"] d sn
        have "dated st (calls st)" by simp
        with sp past show ?thesis
          by (simp add: Resumes c aw i Inl list_end_rejected run_inv_def)
      next
        case (Inr podItems)
        have "dated
           (st\<lparr>self := (self st)\<lparr>list_cache :=
                 Some (Map_of_entries (map (\<lambda>session. (sid session, session)) (sessions_of podItems))),
               listCachedAt := Some (now k (world st))\<rparr>\<rparr>) (calls st)"
          using past by (simp add: dated_def)
        with sp past show ?thesis
          by (simp add: Resumes c aw i Inr list_end_answered run_inv_def)
      qed
    qed
  qed
qed

lemma run_keeps_inv:
  assumes mono: "\<forall>sel w. now k w \<le> now k (snd (pods_get k sel w))"
  shows "0 \<le> listRefresh (self (fst c)) \<Longrightarrow> run_inv k c \<Longrightarrow> \<forall>e \<in> set es. steady k e \<Longrightarrow>
    in_turn k es c \<Longrightarrow>
    run_inv k (run k es c) \<and> listRefresh (self (fst (run k es c))) = listRefresh (self (fst c))"
proof (induction es arbitrary: c)
  case Nil
  then show ?case by simp
next
  case (Cons e es)
  from Cons.prems have st: "steady k e" and turn: "e = Starts \<longrightarrow> snd c = []" by simp_all
  from step_keeps_inv [OF mono Cons.prems(1) Cons.prems(2) st turn]
  have 1: "run_inv k (step k e c)"
    and 2: "listRefresh (self (fst (step k e c))) = listRefresh (self (fst c))" by simp_all
  from Cons.prems have 3: "\<forall>e \<in> set es. steady k e" and 4: "in_turn k es (step k e c)" by simp_all
  from Cons.prems(1) 2 have 5: "0 \<le> listRefresh (self (fst (step k e c)))" by simp
  from Cons.IH [OF 5 1 3 4] 2 show ?case by simp
qed

lemma run_inv_start: "calls st = [] \<Longrightarrow> run_inv k (st, [])"
  by (simp add: run_inv_def spaced_Nil dated_def)


section \<open>The example worlds, evaluated\<close>

lemma demo_k8s_simps [simp]:
  "pods_get (demo_k8s items) sel w = (Inr items, w + 5)"
  "pods_post (demo_k8s items) rq w = (Inr (a_pod (req_name (req_metadata rq)) w None ''Pending''), w + 5)"
  "now (demo_k8s items) w = w"
  "toISOString (demo_k8s items) t = ''2019-03-01T12:00:00.000Z''"
  "randomBytes_hex (demo_k8s items) n i = replicate (2 * n) CHR ''a''"
  by (simp_all add: demo_k8s_def)

lemma flaky_k8s_simps [simp]:
  "pods_get flaky_k8s sel w = (Inl ''unavailable'', w)"
  "now flaky_k8s w = w"
  by (simp_all add: flaky_k8s_def)

lemma demo_state_simps [simp]:
  "pods (self demo_state)" "listCachedAt (self demo_state) = None"
  "list_cache (self demo_state) = None" "listRefresh (self demo_state) = 10000"
  "world demo_state = 0" "calls demo_state = []" "entropy demo_state = 0"
  "containers_of (self demo_state) = CONTAINER_MAP default_config"
  by (simp_all add: demo_state_def init_def new_KubernetesCluster_def)

lemma fresh_state_simps [simp]:
  "\<not> pods (self fresh_state)" "listCachedAt (self fresh_state) = None"
  "world fresh_state = 0" "calls fresh_state = []"
  "containers_of (self fresh_state) = CONTAINER_MAP default_config"
  by (simp_all add: fresh_state_def new_KubernetesCluster_def)

lemma CONTAINER_MAP_default:
  "CONTAINER_MAP default_config ''no/such'' = None"
  "CONTAINER_MAP default_config ''alpine'' =
     Some \<lparr>image = ''alpine'', cmd = [''sleep'', ''90''], vars = [], imagePullPolicy = None\<rparr>"
  by (simp_all add: CONTAINER_MAP_def DEFAULT_CONTAINERS_def Map_of_entries_def
      default_config_def load_config_def given_str_def)

lemma pod_request_fixed:
  "restartPolicy (spec (pod_request cfg container session n l p)) = ''Never''"
  "runAsUser (securityContext (spec (pod_request cfg container session n l p))) = 1000"
  "\<not> automountServiceAccountToken (spec (pod_request cfg container session n l p))"
  by (simp_all add: pod_request_def Let_def)

lemma spawn_not_instantiated:
  "\<not> pods (self st) \<Longrightarrow> spawn cfg k session r st = (Inl NotInstantiated, st)"
  by (simp add: spawn_def)

lemma spawn_unknown:
  "pods (self st) \<Longrightarrow> containers_of (self st) (env_id (environment session)) = None \<Longrightarrow>
   spawn cfg k session r st =
     (Inl (UnknownEnvironment (env_id (environment session))), st\<lparr>entropy := entropy st + 1\<rparr>)"
  by (simp add: spawn_def Let_def)

lemma spawn_known:
  assumes "pods (self st)"
    and "containers_of (self st) (env_id (environment session)) = Some container"
  shows "calls (snd (spawn cfg k session r st)) =
     calls st @
          [\<lparr>issued_at = now k (world st),
            request_of = PodsPost (pod_request cfg container session (generated_name k st)
                \<lparr>label_type = ''session'', reason = r\<rparr> DEFAULT_PORT),
            succeeded = \<not> isl (fst (pods_post k (pod_request cfg container session
                (generated_name k st) \<lparr>label_type = ''session'', reason = r\<rparr> DEFAULT_PORT)
                (world st)))\<rparr>]"
  using assms by (simp add: spawn_def Let_def invoke_def split: prod.split sum.split)

lemma issued_self [simp]: "issued st st = []"
  by (simp add: issued_def)

lemma issued_entropy [simp]: "issued st (st\<lparr>entropy := n\<rparr>) = []"
  by (simp add: issued_def)

section \<open>Spawn: properties\<close>

text \<open>
  C5: every pod creation request \<open>spawn\<close> issues, for every session, every registry of
  environments and every state of the cluster, has \<open>restartPolicy\<close> \<open>Never\<close>, the security
  context \<open>runAsUser = 1000\<close>, and \<open>automountServiceAccountToken\<close> false.
\<close>

theorem C5_spawn_request_fixed_fields:
  "\<forall>c \<in> set (issued st (snd (spawn cfg k session r st))). \<forall>rq. request_of c = PodsPost rq \<longrightarrow>
     restartPolicy (spec rq) = ''Never'' \<and> runAsUser (securityContext (spec rq)) = 1000 \<and>
     \<not> automountServiceAccountToken (spec rq)"
proof (cases "pods (self st)")
  case False
  then show ?thesis by (simp add: spawn_not_instantiated)
next
  case True
  show ?thesis
  proof (cases "containers_of (self st) (env_id (environment session))")
    case None
    with True show ?thesis by (simp add: spawn_unknown)
  next
    case (Some container)
    have "issued st (snd (spawn cfg k session r st)) =
          [\<lparr>issued_at = now k (world st),
            request_of = PodsPost (pod_request cfg container session (generated_name k st)
                \<lparr>label_type = ''session'', reason = r\<rparr> DEFAULT_PORT),
            succeeded = \<not> isl (fst (pods_post k (pod_request cfg container session
                (generated_name k st) \<lparr>label_type = ''session'', reason = r\<rparr> DEFAULT_PORT)
                (world st)))\<rparr>]"
      by (simp add: issued_def spawn_known [OF True Some])
    then show ?thesis by (simp add: pod_request_fixed)
  qed
qed

text \<open>
  C8, as the claim states it, fails on a cluster whose \<open>init\<close> has not run: \<open>spawn\<close> tests
  \<open>this._pods\<close> before it looks the environment up, and fails with the error of a client
  that is not instantiated.
\<close>

theorem C8_counterexample:
  "containers_of (self fresh_state) (env_id (environment unknown_session)) = None \<and>
   fst (spawn default_config (demo_k8s []) unknown_session ''test'' fresh_state) = Inl NotInstantiated"
  by (simp add: spawn_not_instantiated CONTAINER_MAP_default unknown_session_def)

text \<open>
  C8 (amended): for every session whose environment id is not in the registry, \<open>spawn\<close>
  issues no call to the control plane and leaves the world and the cluster as they were; it
  fails with \<open>UnknownEnvironment\<close> when the client has been instantiated, and with
  \<open>NotInstantiated\<close> when it has not.
\<close>

theorem C8_unknown_environment:
  assumes "containers_of (self st) (env_id (environment session)) = None"
  shows "fst (spawn cfg k session r st) =
           (if pods (self st) then Inl (UnknownEnvironment (env_id (environment session)))
            else Inl NotInstantiated) \<and>
         issued st (snd (spawn cfg k session r st)) = [] \<and>
         calls (snd (spawn cfg k session r st)) = calls st \<and>
         world (snd (spawn cfg k session r st)) = world st \<and>
         self (snd (spawn cfg k session r st)) = self st"
  using assms by (cases "pods (self st)") (simp_all add: spawn_not_instantiated spawn_unknown)

theorem C8_unknown_environment_witness:
  "containers_of (self demo_state) (env_id (environment unknown_session)) = None \<and>
   fst (spawn default_config (demo_k8s []) unknown_session ''test'' demo_state) =
     Inl (UnknownEnvironment ''no/such'') \<and>
   calls (snd (spawn default_config (demo_k8s []) unknown_session ''test'' demo_state)) = [] \<and>
   world (snd (spawn default_config (demo_k8s []) unknown_session ''test'' demo_state)) = 0"
  using C8_unknown_environment [of demo_state unknown_session default_config "demo_k8s []" "''test''"]
  by (simp add: CONTAINER_MAP_default unknown_session_def)

section \<open>The cases of \<open>get\<close> and \<open>resolve\<close>, and pods of the examples\<close>

lemma list_hit_case:
  assumes "case listCachedAt (self st) of None \<Rightarrow> False
           | Some cachedAt \<Rightarrow> now k (world st) - cachedAt \<le> listRefresh (self st)"
  shows "list k st = (Inr (case list_cache (self st) of None \<Rightarrow> Map.empty | Some m \<Rightarrow> m), st)"
  using assms by (simp add: list_def split: option.splits)

lemma get_listed:
  assumes "list k st = (Inr sessions, st1)" "sessions sessionId = Some session"
  shows "get k sessionId st = (Inr session, st1)"
  using assms by (simp add: get_def)

lemma resolve_of_get:
  assumes "get k sessionId st = (Inr p, st1)"
  shows "fst (resolve k sessionId st) =
     (case given_str (ip p) of
             Some a \<Rightarrow>
               if port p \<noteq> 0 then Inr (''http://'' @ a @ '':'' @ decimal (port p))
               else if status p = ''Pending'' then Inl NotReady
               else Inl PodFailed
           | None \<Rightarrow>
               if status p = ''Pending'' then Inl NotReady
               else Inl PodFailed)"
  using assms by (simp add: resolve_def split: option.splits)

lemma toLowerCase_phases:
  "toLowerCase ''Pending'' = ''pending''"
  "toLowerCase ''Running'' = ''running''"
  by (simp_all add: toLowerCase_def toLowerCase_char_def)

lemma podToSession_a_pod:
  "podToSession (a_pod n t a ph) =
     \<lparr>sid = n, ip = a, port = 2000, created = t, status = toLowerCase ph, pendingPosition = - 1\<rparr>"
  by (simp add: podToSession_def a_pod_def new_SessionDescription_def DEFAULT_PORT_def)


lemma a_pod_fields [simp]:
  "name (metadata (a_pod n t a ph)) = n"
  "creationTimestamp (metadata (a_pod n t a ph)) = t"
  by (simp_all add: a_pod_def)

lemma decimal_2000: "decimal 2000 = ''2000''"
  by (simp add: decimal.simps)


lemma created_podToSession [simp]: "created (podToSession p) = creationTimestamp (metadata p)"
  by (simp add: podToSession_def new_SessionDescription_def)

lemma pendingPosition_podToSession [simp]: "pendingPosition (podToSession p) = - 1"
  by (simp add: podToSession_def new_SessionDescription_def)


lemma warm_state_simps [simp]:
  "pods (self warm_state)" "listCachedAt (self warm_state) = Some 0"
  "list_cache (self warm_state) = Some Map.empty" "listRefresh (self warm_state) = 10000"
  "world warm_state = 100" "calls warm_state = []"
  by (simp_all add: warm_state_def init_def new_KubernetesCluster_def)



lemma sessions_of_s1:
  "sessions_of [a_pod ''s1'' 1 None ''Pending''] =
     [\<lparr>sid = ''s1'', ip = None, port = 2000, created = 1, status = ''pending'', pendingPosition = 0\<rparr>]"
  by (simp add: sessions_of_def podToSession_a_pod toLowerCase_phases pending_def)

lemma list_begin_demo_stale:
  assumes "case listCachedAt (self st) of None \<Rightarrow> True
           | Some cachedAt \<Rightarrow> world st - cachedAt > listRefresh (self st)"
    and "pods (self st)"
  shows "list_begin (demo_k8s []) st =
     (Awaiting (Inr []),
      st\<lparr>world := world st + 5,
         calls := calls st @ [\<lparr>issued_at = world st, request_of = PodsGet ''type=session'',
                               succeeded = True\<rparr>]\<rparr>)"
proof -
  have stale: "case listCachedAt (self st) of None \<Rightarrow> True
           | Some cachedAt \<Rightarrow> now (demo_k8s []) (world st) - cachedAt > listRefresh (self st)"
    using assms(1) by (simp split: option.splits)
  have answer: "pods_get (demo_k8s []) ''type=session'' (world st) = (Inr [], world st + 5)"
    by simp
  show ?thesis
    by (simp add: list_begin_issues [OF stale assms(2) answer])
qed

lemma list_begin_demo_hit:
  assumes "case listCachedAt (self st) of None \<Rightarrow> False
           | Some cachedAt \<Rightarrow> world st - cachedAt \<le> listRefresh (self st)"
  shows "list_begin (demo_k8s []) st =
           (Done (Inr (case list_cache (self st) of None \<Rightarrow> Map.empty | Some m \<Rightarrow> m)), st)"
proof -
  have "case listCachedAt (self st) of None \<Rightarrow> False
           | Some cachedAt \<Rightarrow> now (demo_k8s []) (world st) - cachedAt \<le> listRefresh (self st)"
    using assms by (simp split: option.splits)
  from list_begin_hit [OF this] show ?thesis .
qed

lemma list_end_demo:
  "snd (list_end (demo_k8s items) (Inr []) st) =
     st\<lparr>self := (self st)\<lparr>list_cache := Some Map.empty, listCachedAt := Some (world st)\<rparr>\<rparr>"
  by (simp add: list_end_answered sessions_of_def Map_of_entries_def)

lemma list_begin_flaky:
  assumes "listCachedAt (self st) = None" and "pods (self st)"
  shows "list_begin flaky_k8s st =
     (Awaiting (Inl (ControlPlaneError ''unavailable'')),
      st\<lparr>calls := calls st @ [\<lparr>issued_at = world st, request_of = PodsGet ''type=session'',
                               succeeded = False\<rparr>]\<rparr>)"
proof -
  have stale: "case listCachedAt (self st) of None \<Rightarrow> True
           | Some cachedAt \<Rightarrow> now flaky_k8s (world st) - cachedAt > listRefresh (self st)"
    using assms(1) by simp
  have answer: "pods_get flaky_k8s ''type=session'' (world st) = (Inl ''unavailable'', world st)"
    by simp
  show ?thesis
    by (simp add: list_begin_issues [OF stale assms(2) answer])
qed

lemma steady_wait: "0 \<le> d \<Longrightarrow> steady (demo_k8s items) (Passes (wait d))"
  by (simp add: wait_def)

lemma demo_run:
  "run (demo_k8s [])
     [Passes (wait 20000), Starts, Resumes 0, Passes (wait 1), Starts,
      Passes (wait 20000), Starts, Resumes 0] (warm_state, []) =
   (warm_state
      \<lparr>world := 40111,
        calls := [\<lparr>issued_at = 20100, request_of = PodsGet ''type=session'', succeeded = True\<rparr>,
                  \<lparr>issued_at = 40106, request_of = PodsGet ''type=session'', succeeded = True\<rparr>],
        self := (self warm_state)\<lparr>list_cache := Some Map.empty, listCachedAt := Some 40111\<rparr>\<rparr>,
    [])"
  by (simp add: list_begin_demo_stale list_begin_demo_hit list_end_demo list_end_rejected wait_def)

lemma demo_in_turn:
  "in_turn (demo_k8s [])
     [Passes (wait 20000), Starts, Resumes 0, Passes (wait 1), Starts,
      Passes (wait 20000), Starts, Resumes 0] (warm_state, [])"
  by (simp add: list_begin_demo_stale list_begin_demo_hit list_end_demo list_end_rejected wait_def)


lemma a_pod_eq [simp]:
  "a_pod n t a ph = a_pod n' t' a' ph' \<longleftrightarrow> n = n' \<and> t = t' \<and> a = a' \<and> ph = ph'"
  by (auto simp: a_pod_def)

section \<open>Listing: properties\<close>




section \<open>Resolving: properties\<close>

lemma toLowerCase_char_not_P: "toLowerCase_char c \<noteq> CHR ''P''"
  by (simp add: toLowerCase_char_def)

lemma toLowerCase_not_Pending: "toLowerCase s \<noteq> ''Pending''"
proof (cases s)
  case Nil
  then show ?thesis by (simp add: toLowerCase_def)
next
  case (Cons c cs)
  with toLowerCase_char_not_P [of c] show ?thesis by (simp add: toLowerCase_def)
qed

lemma status_podToSession: "status (podToSession p) \<noteq> ''Pending''"
  by (simp add: podToSession_def new_SessionDescription_def toLowerCase_not_Pending)


lemma Map_of_entries_SomeD:
  assumes "Map_of_entries es k = Some v"
  shows "(k, v) \<in> set es"
proof -
  from assms have "map_of (rev es) k = Some v"
    by (simp add: Map_of_entries_def foldl_upd_map_of)
  from map_of_SomeD [OF this] show ?thesis by simp
qed

lemma status_assign: "map status (assign_pendingPosition q xs) = map status xs"
  by (induction xs arbitrary: q) simp_all

lemma listed_status:
  assumes "Map_of_entries (map (\<lambda>session. (sid session, session)) (sessions_of podItems)) k = Some s"
  shows "status s \<noteq> ''Pending''"
proof -
  from Map_of_entries_SomeD [OF assms] have "s \<in> set (sessions_of podItems)"
    by (simp add: image_iff)
  then have "status s \<in> set (map status (sessions_of podItems))" by simp
  then have "status s \<in> status ` podToSession ` set podItems"
    by (simp add: sessions_of_def status_assign)
  then obtain p where "status s = status (podToSession p)"
    by blast
  with status_podToSession [of p] show ?thesis by simp
qed

lemma list_None_cases:
  assumes "listCachedAt (self st) = None" and "list k st = (Inr m, st1)"
  shows "\<exists>podItems. m = Map_of_entries (map (\<lambda>session. (sid session, session)) (sessions_of podItems))"
proof (cases "pods (self st)")
  case False
  with assms show ?thesis by (simp add: list_def)
next
  case True
  obtain res w' where pg: "pods_get k ''type=session'' (world st) = (res, w')"
    by (cases "pods_get k ''type=session'' (world st)")
  have stale: "case listCachedAt (self st) of None \<Rightarrow> True
           | Some cachedAt \<Rightarrow> now k (world st) - cachedAt > listRefresh (self st)"
    by (simp add: assms(1))
  show ?thesis
  proof (cases res)
    case (Inl msg)
    from list_rejected [OF stale True pg [unfolded Inl]] assms(2) show ?thesis by simp
  next
    case (Inr podItems)
    from list_refresh [OF stale True pg [unfolded Inr]] assms(2)
    have "m = Map_of_entries (map (\<lambda>session. (sid session, session)) (sessions_of podItems))"
      by simp
    then show ?thesis ..
  qed
qed

lemma get_status:
  assumes "listCachedAt (self st) = None" and "get k sessionId st = (Inr p, st1)"
  shows "status p \<noteq> ''Pending''"
proof -
  obtain r st0 where l: "list k st = (r, st0)" by (cases "list k st")
  show ?thesis
  proof (cases r)
    case (Inl e)
    with l assms(2) show ?thesis by (simp add: get_def)
  next
    case (Inr m)
    from list_None_cases [OF assms(1) l [unfolded Inr]] obtain podItems where
      m: "m = Map_of_entries (map (\<lambda>session. (sid session, session)) (sessions_of podItems))" ..
    show ?thesis
    proof (cases "m sessionId")
      case (Some s)
      with l Inr assms(2) have "p = s" by (simp add: get_def)
      with Some listed_status [of podItems sessionId s] m show ?thesis by simp
    next
      case None
      with l Inr assms(2) obtain pod where "p = podToSession pod"
        by (auto simp: get_def invoke_def split: if_splits prod.splits sum.splits)
      then show ?thesis by (simp add: status_podToSession)
    qed
  qed
qed

text \<open>
  From a cluster whose cache is not dated, \<open>resolve\<close> fails with \<open>NotReady\<close> for no
  session and no answer of the control plane: every status it reads was put in lower case.
\<close>

lemma resolve_never_NotReady:
  assumes "listCachedAt (self st) = None"
  shows "fst (resolve k sessionId st) \<noteq> Inl NotReady"
proof -
  obtain r st1 where g: "get k sessionId st = (r, st1)" by (cases "get k sessionId st")
  show ?thesis
  proof (cases r)
    case (Inl e)
    have "e \<noteq> NotReady"
    proof -
      obtain rl st0 where l: "list k st = (rl, st0)" by (cases "list k st")
      from g Inl l show ?thesis
        by (auto simp: get_def list_def invoke_def Let_def assms
            split: if_splits prod.splits sum.splits option.splits)
    qed
    with g Inl show ?thesis by (simp add: resolve_def)
  next
    case (Inr p)
    from get_status [OF assms g [unfolded Inr]] resolve_of_get [OF g [unfolded Inr]]
    show ?thesis by (simp split: option.splits)
  qed
qed

text \<open>
  C2: a pod in phase \<open>Pending\<close> with no address is to make \<open>resolve\<close> fail with
  \<open>NotReady\<close>. \<open>_podToSession\<close> stores the phase in lower case and \<open>resolve\<close> compares
  the stored status with \<open>'Pending'\<close>, so the pod makes \<open>resolve\<close> fail with \<open>PodFailed\<close>.
\<close>

theorem C2_pending_pod_resolves_to_PodFailed:
  "fst (resolve (demo_k8s [a_pod ''s1'' 1 None ''Pending'']) ''s1'' demo_state) = Inl PodFailed"
proof -
  let ?k = "demo_k8s [a_pod ''s1'' 1 None ''Pending'']"
  have "\<exists>st1. get ?k ''s1'' demo_state =
     (Inr \<lparr>sid = ''s1'', ip = None, port = 2000, created = 1, status = ''pending'',
           pendingPosition = 0\<rparr>, st1)"
    by (simp add: get_listed [OF list_refresh [where w' = 5]] sessions_of_s1 Map_of_entries_def)
  then obtain st1 where "get ?k ''s1'' demo_state =
     (Inr \<lparr>sid = ''s1'', ip = None, port = 2000, created = 1, status = ''pending'',
           pendingPosition = 0\<rparr>, st1)" ..
  from resolve_of_get [OF this] show ?thesis by (simp add: given_str_def)
qed

text \<open>
  C4, as the claim states it, fails in two ways. When the control plane rejects a call,
  \<open>list\<close> does not date its cache, and the next \<open>list()\<close>, here 1 ms later, issues a call
  again. And when a second \<open>list()\<close> starts while the first awaits its answer, the cache is
  not dated yet, and the second issues a call of its own, here 5 ms after the first.
\<close>

theorem C4_counterexample:
  "calls (fst (run flaky_k8s [Starts, Resumes 0, Passes (wait 1), Starts, Resumes 0]
                 (demo_state, []))) =
     [\<lparr>issued_at = 0, request_of = PodsGet ''type=session'', succeeded = False\<rparr>,
      \<lparr>issued_at = 1, request_of = PodsGet ''type=session'', succeeded = False\<rparr>] \<and>
   calls (fst (run (demo_k8s []) [Starts, Starts, Resumes 0, Resumes 0] (demo_state, []))) =
     [\<lparr>issued_at = 0, request_of = PodsGet ''type=session'', succeeded = True\<rparr>,
      \<lparr>issued_at = 5, request_of = PodsGet ''type=session'', succeeded = True\<rparr>] \<and>
   listRefresh (self demo_state) = 10000"
  by (simp add: list_begin_flaky list_begin_demo_stale list_end_demo list_end_rejected wait_def)

text \<open>
  C4 (amended): if \<open>list()\<close> is called while the age of the cache is at most the refresh
  interval, it returns the cached snapshot and issues no call (the state, its record of calls
  included, is as it was). Consequently, in every run of \<open>list()\<close> calls in which no call
  starts while another awaits its answer, over a clock that is not set back, after a call to
  the control plane that was answered every later call is issued more than the refresh
  interval later, whatever the number of calls.
\<close>

theorem C4_list_cache:
  "(\<forall>t. listCachedAt (self st) = Some t \<and> now k (world st) - t \<le> listRefresh (self st) \<longrightarrow>
      list k st = (Inr (case list_cache (self st) of None \<Rightarrow> Map.empty | Some m \<Rightarrow> m), st)) \<and>
   ((\<forall>sel w. now k w \<le> now k (snd (pods_get k sel w))) \<and>
    (\<forall>e \<in> set es. steady k e) \<and> in_turn k es (st0, []) \<and>
    0 \<le> listRefresh (self st0) \<and> calls st0 = [] \<longrightarrow>
      spaced (listRefresh (self st0)) (calls (fst (run k es (st0, [])))))"
proof (intro conjI allI impI)
  fix t assume "listCachedAt (self st) = Some t \<and> now k (world st) - t \<le> listRefresh (self st)"
  then show "list k st = (Inr (case list_cache (self st) of None \<Rightarrow> Map.empty | Some m \<Rightarrow> m), st)"
    by (simp add: list_hit)
next
  assume a: "(\<forall>sel w. now k w \<le> now k (snd (pods_get k sel w))) \<and>
    (\<forall>e \<in> set es. steady k e) \<and> in_turn k es (st0, []) \<and>
    0 \<le> listRefresh (self st0) \<and> calls st0 = []"
  then have mono: "\<forall>sel w. now k w \<le> now k (snd (pods_get k sel w))"
    and sd: "\<forall>e \<in> set es. steady k e" and turn: "in_turn k es (st0, [])"
    and r: "0 \<le> listRefresh (self (fst (st0, ([] :: (error + PodDescription list) list))))"
    and i: "run_inv k (st0, [])"
    by (simp_all add: run_inv_start)
  from run_keeps_inv [OF mono r i sd turn]
  have 1: "run_inv k (run k es (st0, []))"
    and 2: "listRefresh (self (fst (run k es (st0, [])))) = listRefresh (self st0)" by simp_all
  from 1 have "spaced (listRefresh (self (fst (run k es (st0, []))))) (calls (fst (run k es (st0, []))))"
    by (cases "run k es (st0, [])") (simp add: run_inv_def)
  then show "spaced (listRefresh (self st0)) (calls (fst (run k es (st0, []))))"
    unfolding 2 .
qed

theorem C4_list_cache_witness:
  "listCachedAt (self warm_state) = Some 0 \<and>
   now (demo_k8s []) (world warm_state) - 0 \<le> listRefresh (self warm_state) \<and>
   list (demo_k8s []) warm_state = (Inr Map.empty, warm_state) \<and>
   (\<forall>sel w. now (demo_k8s []) w \<le> now (demo_k8s []) (snd (pods_get (demo_k8s []) sel w))) \<and>
   list_all (steady (demo_k8s []))
     [Passes (wait 20000), Starts, Resumes 0, Passes (wait 1), Starts,
      Passes (wait 20000), Starts, Resumes 0] \<and>
   in_turn (demo_k8s [])
     [Passes (wait 20000), Starts, Resumes 0, Passes (wait 1), Starts,
      Passes (wait 20000), Starts, Resumes 0] (warm_state, []) \<and>
   0 \<le> listRefresh (self warm_state) \<and> calls warm_state = [] \<and>
   spaced 10000
     [\<lparr>issued_at = 20100, request_of = PodsGet ''type=session'', succeeded = True\<rparr>,
      \<lparr>issued_at = 40106, request_of = PodsGet ''type=session'', succeeded = True\<rparr>]"
proof -
  note t = C4_list_cache [of warm_state "demo_k8s []"
      "[Passes (wait 20000), Starts, Resumes 0, Passes (wait 1), Starts,
        Passes (wait 20000), Starts, Resumes 0]" warm_state, unfolded demo_run]
  have sd: "\<forall>e \<in> set [Passes (wait 20000), Starts, Resumes 0, Passes (wait 1), Starts,
                 Passes (wait 20000), Starts, Resumes 0]. steady (demo_k8s []) e"
    by (simp add: wait_def)
  from t sd demo_in_turn show ?thesis by (simp add: list_all_iff)
qed

theorem C5_spawn_request_fixed_fields_witness:
  "issued demo_state (snd (spawn default_config (demo_k8s []) alpine_session ''test'' demo_state)) =
     [\<lparr>issued_at = 0,
       request_of = PodsPost (pod_request default_config alpine_container alpine_session
          (generated_name (demo_k8s []) demo_state)
          \<lparr>label_type = ''session'', reason = ''test''\<rparr> DEFAULT_PORT),
       succeeded = True\<rparr>] \<and>
   restartPolicy (spec (pod_request default_config alpine_container alpine_session
          (generated_name (demo_k8s []) demo_state)
          \<lparr>label_type = ''session'', reason = ''test''\<rparr> DEFAULT_PORT)) = ''Never'' \<and>
   runAsUser (securityContext (spec (pod_request default_config alpine_container alpine_session
          (generated_name (demo_k8s []) demo_state)
          \<lparr>label_type = ''session'', reason = ''test''\<rparr> DEFAULT_PORT))) = 1000 \<and>
   \<not> automountServiceAccountToken (spec (pod_request default_config alpine_container alpine_session
          (generated_name (demo_k8s []) demo_state)
          \<lparr>label_type = ''session'', reason = ''test''\<rparr> DEFAULT_PORT))"
proof -
  have c: "containers_of (self demo_state) (env_id (environment alpine_session)) = Some alpine_container"
    by (simp add: CONTAINER_MAP_default alpine_session_def alpine_container_def)
  have p: "pods (self demo_state)" by simp
  have i: "issued demo_state (snd (spawn default_config (demo_k8s []) alpine_session ''test'' demo_state)) =
     [\<lparr>issued_at = 0,
       request_of = PodsPost (pod_request default_config alpine_container alpine_session
          (generated_name (demo_k8s []) demo_state)
          \<lparr>label_type = ''session'', reason = ''test''\<rparr> DEFAULT_PORT),
       succeeded = True\<rparr>]"
    by (simp add: issued_def spawn_known [OF p c])
  from C5_spawn_request_fixed_fields [of demo_state default_config "demo_k8s []" alpine_session "''test''"]
  show ?thesis by (simp add: i)
qed

section \<open>Filling the pool: properties\<close>

lemma fill_loop_result:
  "fill_loop m index required st =
     st\<lparr>fill_world :=
          (spawn_method m None ''standby'' ''filling'' ^^ nat (required - index)) (fill_world st),
        spawns := spawns st @ replicate (nat (required - index)) (None, ''standby'', ''filling'')\<rparr>"
proof (induction m index required st rule: fill_loop.induct)
  case (1 m index required st)
  show ?case
  proof (cases "index < required")
    case True
    then have n: "nat (required - index) = Suc (nat (required - (index + 1)))" by simp
    from True "1.IH" [OF True] show ?thesis
      by (subst fill_loop.simps) (simp only: n, simp add: funpow_swap1)
  next
    case False
    then show ?thesis by (subst fill_loop.simps) simp
  qed
qed

lemma demo_methods_spawn [simp]:
  "spawn_method (demo_methods pods_listed) environId pool_given reason_given w = w + 1"
  by (simp add: demo_methods_def)

lemma fill_starts:
  assumes "list_method m (fill_world st) = (Inr pods_listed, w1)"
  shows "fill cfg m st =
     st\<lparr>fill_world :=
          (spawn_method m None ''standby'' ''filling''
             ^^ nat (STANDBY_POOL cfg - int (length pods_listed))) w1,
        spawns := spawns st @
          replicate (nat (STANDBY_POOL cfg - int (length pods_listed)))
            (None, ''standby'', ''filling''),
        timers := timers st @ [STANDBY_FREQ cfg]\<rparr>"
  using assms by (simp add: fill_def Let_def fill_loop_result)

lemma demo_methods_simps [simp]:
  "list_method (demo_methods pods_listed) w = (Inr pods_listed, w)"
  by (simp add: demo_methods_def)

text \<open>
  C9: a cycle of \<open>fill\<close> is to start as many \<open>spawn\<close> operations as the standby pool lacks,
  the target minus the number of pods whose pool label is standby. \<open>fill\<close> subtracts
  \<open>pods.size\<close>, the number of all the pods \<open>list\<close> returns, and reads no label: with a target
  of 2 and one pod listed, whose pool label is \<open>aquired\<close>, the standby pool lacks 2 pods and
  \<open>fill\<close> starts one \<open>spawn\<close> (the world counts one pod spawned).
\<close>

theorem C9_fill_counts_all_pods:
  "count_standby [(''p1'', session_pod)] = 0 \<and>
   STANDBY_POOL small_pool - int (count_standby [(''p1'', session_pod)]) = 2 \<and>
   fill small_pool (demo_methods [(''p1'', session_pod)]) idle_fill =
     \<lparr>fill_world = 1, spawns = [(None, ''standby'', ''filling'')], errors_logged = [],
      timers = [30000]\<rparr>"
  by (simp add: count_standby_def session_pod_def small_pool_def idle_fill_def fill_def
      Let_def fill_loop_result)

section \<open>Acquiring a pod: properties\<close>

lemma demo_env_simps [simp]:
  "k8s_pods_get (demo_env items c) sel w = (Inr items, w + 1)"
  "k8s_pod_patch (demo_env items c) n body w = (Inr (host_pod n ''Running'' c), w + 1)"
  "docker_listContainers (demo_env items c) opts w = (Inr [], w + 1)"
  "docker_createContainer (demo_env items c) opts w = (Inr ''c0'', w + 1)"
  "container_start (demo_env items c) cid w = (None, w + 1)"
  "randomPort (demo_env items c) w = (2010, w)"
  by (simp_all add: demo_env_def)

lemma host_simps [simp]:
  "\<not> development production_host" "development development_host"
  "host_id production_host = ''cloud-1''"
  "host_world host_start = 0" "host_calls host_start = []"
  by (simp_all add: development_def production_host_def development_host_def host_start_def)

lemma host_pod_simps [simp]:
  "running (host_pod n ''Running'' c)"
  "metadata_name (host_pod n ph c) = n"
  "metadata_labels (host_pod n ph c) ''claimer'' = Some c"
  by (simp_all add: running_def host_pod_def)

lemma aquire_production:
  "\<not> development h \<Longrightarrow>
   aquire e h st =
     (case host_invoke (ListPods ''pool=standby'') (k8s_pods_get e ''pool=standby'') st of
           (Inl err, st1) \<Rightarrow> Some (Called (Inl err), st1)
         | (Inr items, st1) \<Rightarrow>
             (case find running items of
                None \<Rightarrow> Some (NotCalled, st1)
              | Some pod \<Rightarrow>
                  (case host_invoke (PatchPod (metadata_name pod) (claim_labels (host_id h)))
                          (k8s_pod_patch e (metadata_name pod) (claim_labels (host_id h))) st1 of
                     (Inl err, st2) \<Rightarrow> Some (Called (Inl err), st2)
                   | (Inr claimed, st2) \<Rightarrow>
                       if metadata_labels claimed ''claimer'' = Some (host_id h)
                       then
                         (case host_invoke
                                 (PatchPod (metadata_name claimed) (aquire_labels (host_id h)))
                                 (k8s_pod_patch e (metadata_name claimed)
                                    (aquire_labels (host_id h))) st2 of
                            (Inl err, st3) \<Rightarrow> Some (Called (Inl err), st3)
                          | (Inr aquired, st3) \<Rightarrow>
                              Some (Called (Inr (Some (''http://'' @ render (status_podIP aquired)
                                                        @ '':2000''))), st3))
                       else aquire e h st2)))"
  by (subst aquire.simps) simp

lemma aquire_no_running:
  assumes "\<not> development h"
    and "k8s_pods_get e ''pool=standby'' (host_world st) = (Inr items, w1)"
    and "find running items = None"
  shows "aquire e h st =
     Some (NotCalled, st\<lparr>host_world := w1, host_calls := host_calls st @ [ListPods ''pool=standby'']\<rparr>)"
  using assms by (simp add: aquire_production host_invoke_def)


lemma aquire_development_empty:
  "aquire (demo_env items c) development_host st =
     Some (Called (Inr None),
           st\<lparr>host_world := host_world st + 1,
               host_calls := host_calls st @ [ListContainers standby_filter]\<rparr>)"
  by (subst aquire.simps) (simp add: host_invoke_def)

text \<open>In development the same call goes on to \<open>spawn\<close>: there \<open>aquire\<close> calls back with
  \<open>null\<close> when no container is listed.\<close>

lemma obtain_pod_development_spawns:
  "obtain_pod (demo_env [] ''cloud-1'') development_host host_start =
     Some (Called (Inr (''http://127.0.0.1:'' @ decimal 2010)),
           \<lparr>host_world = 3,
            host_calls = [ListContainers standby_filter,
                          CreateContainer (docker_options development_host 2010),
                          StartContainer ''c0'']\<rparr>)"
  by (simp add: obtain_pod_def aquire_development_empty given_str_def host_spawn_def
      host_invoke_def host_start_def)

lemma contested_env_simps [simp]:
  "k8s_pods_get contested_env sel w = (Inr [host_pod ''p1'' ''Running'' ''none''], w)"
  "k8s_pod_patch contested_env n body w =
     (Inr (host_pod n ''Running'' (if 0 < w then ''cloud-2'' else ''cloud-1'')), w - 1)"
  by (simp_all add: contested_env_def)

lemma conflict_env_simps [simp]:
  "k8s_pods_get conflict_env sel w = (Inr [host_pod ''p1'' ''Running'' ''none''], w)"
  "k8s_pod_patch conflict_env n body w = (Inl ''conflict'', w)"
  by (simp_all add: conflict_env_def)

lemma status_podIP_host_pod [simp]: "status_podIP (host_pod n ph c) = Some ''10.0.0.9''"
  by (simp add: host_pod_def)











text \<open>
  C3: on a pool with no running pod, \<open>obtain\<close> is to go on to \<open>spawn\<close> and return the address
  of the pod spawned. In production \<open>aquire\<close> calls its callback only from inside the loop
  over the pods listed: with no running pod listed the callback is never called, and \<open>obtain\<close>
  neither spawns nor calls back. The one call made is the listing.
\<close>

theorem C3_empty_pool_never_spawns:
  "obtain_pod (demo_env [] ''cloud-1'') production_host host_start =
     Some (NotCalled, \<lparr>host_world = 1, host_calls = [ListPods ''pool=standby'']\<rparr>)"
proof -
  have a: "\<not> development production_host" by simp
  have b: "k8s_pods_get (demo_env [] ''cloud-1'') ''pool=standby'' (host_world host_start) =
             (Inr [], 1)" by simp
  have c: "find running ([] :: HostPod list) = None" by simp
  have "aquire (demo_env [] ''cloud-1'') production_host host_start =
     Some (NotCalled, \<lparr>host_world = 1, host_calls = [ListPods ''pool=standby'']\<rparr>)"
    using aquire_no_running [OF a b c] by (simp add: host_start_def)
  then show ?thesis by (simp add: obtain_pod_def)
qed

end
